theory Spec2Isabelle
  imports Main
begin

section \<open>Python values\<close>

text \<open>
  A verification development for \<^verbatim>\<open>export_to_s3.py\<close>: the export of MongoDB collections
  to newline-delimited JSON through a pandas DataFrame. The functions of the program
  (\<^verbatim>\<open>clean_dataframe\<close>, \<^verbatim>\<open>cast_types\<close>, \<^verbatim>\<open>export_to_ndjson\<close>, \<^verbatim>\<open>main\<close>) are translated
  statement by statement; the calls they make into pandas and \<^verbatim>\<open>json\<close> are modelled as
  pandas 2 and Python 3 behave, with \<^verbatim>\<open>object\<close> as the dtype of text and nanosecond
  timestamps.

  A Python \<^verbatim>\<open>str\<close> is a sequence of Unicode code points, so a character is a natural
  number and not a byte. \<open>ascii\<close> writes a literal.
\<close>

type_synonym pystr = "nat list"

definition ascii :: "string \<Rightarrow> pystr" where
  "ascii s = map of_char s"

text \<open>
  A pandas \<^verbatim>\<open>Timestamp\<close> of nanosecond resolution lies between 1677-09-21 and 2262-04-11
  and is a valid calendar date with a time of day. Only the date is ever read by the
  program, so the time of day is one number (nanoseconds since midnight).
\<close>

typedef timestamp =
  "{(y :: nat, m :: nat, d :: nat, t :: nat).
      1677 \<le> y \<and> y \<le> 2262 \<and> 1 \<le> m \<and> m \<le> 12 \<and> 1 \<le> d \<and> d \<le> 31}"
  by (rule exI [of _ "(1970, 1, 1, 0)"]) simp

setup_lifting type_definition_timestamp

lift_definition ts_year :: "timestamp \<Rightarrow> nat" is "\<lambda>(y, m, d, t). y" .

lift_definition ts_month :: "timestamp \<Rightarrow> nat" is "\<lambda>(y, m, d, t). m" .

lift_definition ts_day :: "timestamp \<Rightarrow> nat" is "\<lambda>(y, m, d, t). d" .

text \<open>The timestamp of a date and a time of day; the epoch when the date is not valid.\<close>

lift_definition Timestamp :: "nat \<Rightarrow> nat \<Rightarrow> nat \<Rightarrow> nat \<Rightarrow> timestamp" is
  "\<lambda>y m d t. if 1677 \<le> y \<and> y \<le> 2262 \<and> 1 \<le> m \<and> m \<le> 12 \<and> 1 \<le> d \<and> d \<le> 31
             then (y, m, d, t) else (1970, 1, 1, 0)"
  by simp

instantiation timestamp :: equal
begin

lift_definition equal_timestamp :: "timestamp \<Rightarrow> timestamp \<Rightarrow> bool" is "(=)" .

instance
  by standard (transfer, simp)

end

text \<open>
  A float is NaN, an infinity, or a finite number written \<open>m * 10 ^ e\<close> (every binary64
  value has such a decimal form). Rounding to binary64 is not modelled: nothing below
  depends on it.
\<close>

datatype pyfloat = NaN | PosInf | NegInf | Fin int int

text \<open>
  The objects a cell of a DataFrame or a value of a document can hold: \<^verbatim>\<open>str\<close>,
  \<^verbatim>\<open>int\<close>, \<^verbatim>\<open>float\<close>, \<^verbatim>\<open>bool\<close>, \<^verbatim>\<open>None\<close>, a timestamp, and pandas' missing markers
  \<^verbatim>\<open>pd.NaT\<close> and \<^verbatim>\<open>pd.NA\<close>.
\<close>

datatype pyobj =
    PStr pystr
  | PInt int
  | PFloat pyfloat
  | PBool bool
  | PNone
  | PTimestamp timestamp
  | PNaT
  | PNA

text \<open>
  What the program takes from its libraries without computing it itself. These are
  parameters of the model: every theorem holds for each value of them.
  \<^item> \<open>float_repr m e\<close>: Python's \<^verbatim>\<open>repr\<close> of the finite float \<open>m * 10 ^ e\<close>;
  \<^item> \<open>timestamp_str\<close>: \<^verbatim>\<open>str\<close> of a timestamp;
  \<^item> \<open>parse_datetime col v\<close>: what \<^verbatim>\<open>pd.to_datetime(col, errors="coerce")\<close> makes of
    the cell \<open>v\<close> of the column \<open>col\<close> when \<open>v\<close> is a string, a number or a boolean
    (\<open>None\<close> is \<^verbatim>\<open>NaT\<close>);
  \<^item> \<open>timestamp_ns\<close>: a timestamp as nanoseconds since the epoch.
\<close>

record lib =
  float_repr :: "int \<Rightarrow> int \<Rightarrow> pystr"
  timestamp_str :: "timestamp \<Rightarrow> pystr"
  parse_datetime :: "pyobj list \<Rightarrow> pyobj \<Rightarrow> timestamp option"
  timestamp_ns :: "timestamp \<Rightarrow> int"

subsection \<open>\<^verbatim>\<open>str(x)\<close>\<close>

fun nat_digits :: "nat \<Rightarrow> pystr" where
  "nat_digits n = (if n < 10 then [48 + n] else nat_digits (n div 10) @ [48 + n mod 10])"

declare nat_digits.simps [simp del]

definition int_str :: "int \<Rightarrow> pystr" where
  "int_str i = (if i < 0 then 45 # nat_digits (nat (- i)) else nat_digits (nat i))"

definition bool_str :: "bool \<Rightarrow> pystr" where
  "bool_str b = (if b then ascii ''True'' else ascii ''False'')"

fun float_str :: "lib \<Rightarrow> pyfloat \<Rightarrow> pystr" where
  "float_str L NaN = ascii ''nan''"
| "float_str L PosInf = ascii ''inf''"
| "float_str L NegInf = ascii ''-inf''"
| "float_str L (Fin m e) = float_repr L m e"

fun py_str :: "lib \<Rightarrow> pyobj \<Rightarrow> pystr" where
  "py_str L (PStr s) = s"
| "py_str L (PInt i) = int_str i"
| "py_str L (PFloat f) = float_str L f"
| "py_str L (PBool b) = bool_str b"
| "py_str L PNone = ascii ''None''"
| "py_str L (PTimestamp t) = timestamp_str L t"
| "py_str L PNaT = ascii ''NaT''"
| "py_str L PNA = ascii ''<NA>''"

section \<open>The DataFrame\<close>

text \<open>
  A column (a pandas \<^verbatim>\<open>Series\<close>) has one dtype for all its cells: \<^verbatim>\<open>object\<close> (any Python
  objects), \<^verbatim>\<open>bool\<close>, \<^verbatim>\<open>int64\<close>, \<^verbatim>\<open>float64\<close>, \<^verbatim>\<open>datetime64[ns]\<close> (\<open>None\<close> is \<^verbatim>\<open>NaT\<close>) or
  the nullable \<^verbatim>\<open>Int64\<close> (\<open>None\<close> is \<^verbatim>\<open>pd.NA\<close>).
\<close>

datatype series =
    ObjCol "pyobj list"
  | BoolCol "bool list"
  | IntCol "int list"
  | FloatCol "pyfloat list"
  | DateCol "timestamp option list"
  | NIntCol "int option list"

datatype dtype = Dobject | Dbool | Dint64 | Dfloat64 | Ddatetime64 | DInt64

fun dtype_of :: "series \<Rightarrow> dtype" where
  "dtype_of (ObjCol _) = Dobject"
| "dtype_of (BoolCol _) = Dbool"
| "dtype_of (IntCol _) = Dint64"
| "dtype_of (FloatCol _) = Dfloat64"
| "dtype_of (DateCol _) = Ddatetime64"
| "dtype_of (NIntCol _) = DInt64"

text \<open>The cells of a column as Python objects (\<^verbatim>\<open>Series.tolist()\<close>).\<close>

fun series_values :: "series \<Rightarrow> pyobj list" where
  "series_values (ObjCol xs) = xs"
| "series_values (BoolCol bs) = map PBool bs"
| "series_values (IntCol ns) = map PInt ns"
| "series_values (FloatCol fs) = map PFloat fs"
| "series_values (DateCol ts) = map (\<lambda>t. case t of None \<Rightarrow> PNaT | Some x \<Rightarrow> PTimestamp x) ts"
| "series_values (NIntCol ns) = map (\<lambda>n. case n of None \<Rightarrow> PNA | Some i \<Rightarrow> PInt i) ns"

text \<open>
  A DataFrame: its index length and its columns in order. The frames the program builds
  come from documents, whose keys are unique.
\<close>

record frame =
  nrows :: nat
  columns :: "(pystr \<times> series) list"

definition column_names :: "frame \<Rightarrow> pystr list" where
  "column_names df = map fst (columns df)"

text \<open>\<^verbatim>\<open>df[col] = f(df[col])\<close>: the column named \<open>col\<close> is replaced in its place.\<close>

definition update_column :: "pystr \<Rightarrow> (series \<Rightarrow> series) \<Rightarrow> frame \<Rightarrow> frame" where
  "update_column col f df =
     df\<lparr>columns := map (\<lambda>(n, s). if n = col then (n, f s) else (n, s)) (columns df)\<rparr>"

section \<open>The sanitizer: \<^verbatim>\<open>clean_dataframe\<close>\<close>

text \<open>\<^verbatim>\<open>Series.astype(str)\<close>: every cell becomes its \<^verbatim>\<open>str\<close>, a null cell too.\<close>

definition astype_str :: "lib \<Rightarrow> series \<Rightarrow> pystr list" where
  "astype_str L s = map (py_str L) (series_values s)"

text \<open>\<^verbatim>\<open>.str.replace(r"[\r\n\t]", " ", regex=True)\<close>\<close>

definition replace_crlftab :: "pystr \<Rightarrow> pystr" where
  "replace_crlftab s = map (\<lambda>c. if c = 13 \<or> c = 10 \<or> c = 9 then 32 else c) s"

text \<open>\<^verbatim>\<open>.str.replace(r"[^\x20-\x7E]", "", regex=True)\<close>\<close>

definition remove_nonprintable :: "pystr \<Rightarrow> pystr" where
  "remove_nonprintable s = filter (\<lambda>c. 32 \<le> c \<and> c \<le> 126) s"

definition clean_series :: "lib \<Rightarrow> series \<Rightarrow> series" where
  "clean_series L s =
     ObjCol (map (\<lambda>t. PStr (remove_nonprintable (replace_crlftab t))) (astype_str L s))"

text \<open>\<^verbatim>\<open>df.select_dtypes(include=["object", "bool"]).columns\<close>\<close>

definition select_dtypes_object_bool :: "frame \<Rightarrow> pystr list" where
  "select_dtypes_object_bool df =
     map fst (filter (\<lambda>(n, s). dtype_of s = Dobject \<or> dtype_of s = Dbool) (columns df))"

text \<open>The loop of \<^verbatim>\<open>clean_dataframe\<close> over the selected column names.\<close>

definition clean_dataframe :: "lib \<Rightarrow> frame \<Rightarrow> frame" where
  "clean_dataframe L df =
     foldl (\<lambda>d col. update_column col (clean_series L) d) df (select_dtypes_object_bool df)"

section \<open>The type caster: \<^verbatim>\<open>cast_types\<close>\<close>

text \<open>
  The exceptions of the model: \<^verbatim>\<open>TypeError\<close> and \<^verbatim>\<open>KeyError\<close> are raised by the program's
  own steps, \<open>LibraryError\<close> is any other exception derived from \<^verbatim>\<open>Exception\<close> that the
  database, the storage service or the file system raises, and \<open>NotAnException\<close> is an
  exception that is not derived from \<^verbatim>\<open>Exception\<close> (\<^verbatim>\<open>KeyboardInterrupt\<close>, \<^verbatim>\<open>SystemExit\<close>).
\<close>

datatype exn = TypeError | KeyError | LibraryError pystr | NotAnException pystr

fun is_Exception :: "exn \<Rightarrow> bool" where
  "is_Exception (NotAnException _) = False"
| "is_Exception _ = True"

subsection \<open>\<^verbatim>\<open>pd.to_numeric(series, errors="coerce")\<close>\<close>

definition is_space :: "nat \<Rightarrow> bool" where
  "is_space c = (c = 32 \<or> (9 \<le> c \<and> c \<le> 13))"

definition is_digit :: "nat \<Rightarrow> bool" where
  "is_digit c = (48 \<le> c \<and> c \<le> 57)"

definition digits_value :: "pystr \<Rightarrow> int" where
  "digits_value ds = foldl (\<lambda>a c. 10 * a + (int c - 48)) 0 ds"

text \<open>An optional sign: whether it is a minus, and the rest of the string.\<close>

fun take_sign :: "pystr \<Rightarrow> bool \<times> pystr" where
  "take_sign [] = (False, [])"
| "take_sign (c # r) =
     (if c = 45 then (True, r) else if c = 43 then (False, r) else (False, c # r))"

text \<open>
  The exponent part after the digits and the fraction: the exponent and what follows it.
  An \<^verbatim>\<open>e\<close> that no digit follows is not consumed.
\<close>

fun take_exponent :: "pystr \<Rightarrow> bool \<times> int \<times> pystr" where
  "take_exponent [] = (False, 0, [])"
| "take_exponent (c # r) =
     (if c = 101 \<or> c = 69 then
        (let (neg, r1) = take_sign r; ds = takeWhile is_digit r1
         in if ds = [] then (True, 0, c # r)
            else (True, (if neg then - digits_value ds else digits_value ds),
                  dropWhile is_digit r1))
      else (False, 0, c # r))"

text \<open>
  The number parser pandas applies to a string cell: blanks, a sign, digits, a fraction,
  an exponent, blanks. The result is whether the text may be an integer (no point, no
  exponent), and the number as \<open>m * 10 ^ e\<close>. A thousands separator is not part of a number.
\<close>

definition xstrtod :: "pystr \<Rightarrow> (bool \<times> int \<times> int) option" where
  "xstrtod s =
     (let (neg, s1) = take_sign (dropWhile is_space s);
          ip = takeWhile is_digit s1;
          s2 = dropWhile is_digit s1;
          has_point = (case s2 of [] \<Rightarrow> False | c # _ \<Rightarrow> c = 46);
          fp = (if has_point then takeWhile is_digit (tl s2) else []);
          s3 = (if has_point then dropWhile is_digit (tl s2) else s2);
          (has_exp, ex, s4) = take_exponent s3;
          m = digits_value (ip @ fp)
      in if ip = [] \<and> fp = [] then None
         else if dropWhile is_space s4 \<noteq> [] then None
         else Some (\<not> has_point \<and> \<not> has_exp, (if neg then - m else m), ex - int (length fp)))"

definition lower :: "pystr \<Rightarrow> pystr" where
  "lower s = map (\<lambda>c. if 65 \<le> c \<and> c \<le> 90 then c + 32 else c) s"

text \<open>The words for NaN and the infinities, in any case.\<close>

definition special_float :: "pystr \<Rightarrow> pyfloat option" where
  "special_float s =
     (let w = lower s
      in if w = ascii ''nan'' then Some NaN
         else if w = ascii ''inf'' \<or> w = ascii ''+inf'' \<or> w = ascii ''infinity''
                 \<or> w = ascii ''+infinity'' then Some PosInf
         else if w = ascii ''-inf'' \<or> w = ascii ''-infinity'' then Some NegInf
         else None)"

definition int64_range :: "int \<Rightarrow> bool" where
  "int64_range i = (- (2 ^ 63) \<le> i \<and> i < 2 ^ 63)"

text \<open>What one cell of an \<^verbatim>\<open>object\<close> column converts to; \<open>NumNull\<close> is the coerced failure.\<close>

datatype numcell = NumInt int | NumFloat pyfloat | NumBool bool | NumNull

fun convert_numeric :: "pyobj \<Rightarrow> numcell" where
  "convert_numeric (PInt i) = (if int64_range i then NumInt i else NumFloat (Fin i 0))"
| "convert_numeric (PFloat f) = NumFloat f"
| "convert_numeric (PBool b) = NumBool b"
| "convert_numeric (PStr s) =
     (case xstrtod s of
        Some (maybe_int, m, e) \<Rightarrow>
          if maybe_int \<and> int64_range m then NumInt m else NumFloat (Fin m e)
      | None \<Rightarrow> (case special_float s of Some f \<Rightarrow> NumFloat f | None \<Rightarrow> NumNull))"
| "convert_numeric _ = NumNull"

fun is_NumInt :: "numcell \<Rightarrow> bool" where
  "is_NumInt (NumInt _) = True"
| "is_NumInt _ = False"

fun is_float_or_null :: "numcell \<Rightarrow> bool" where
  "is_float_or_null (NumFloat _) = True"
| "is_float_or_null NumNull = True"
| "is_float_or_null _ = False"

fun numcell_float :: "numcell \<Rightarrow> pyfloat" where
  "numcell_float (NumInt i) = Fin i 0"
| "numcell_float (NumFloat f) = f"
| "numcell_float (NumBool b) = Fin (if b then 1 else 0) 0"
| "numcell_float NumNull = NaN"

fun numcell_int :: "numcell \<Rightarrow> int" where
  "numcell_int (NumInt i) = i"
| "numcell_int (NumBool b) = (if b then 1 else 0)"
| "numcell_int _ = 0"

fun numcell_bool :: "numcell \<Rightarrow> bool" where
  "numcell_bool (NumBool b) = b"
| "numcell_bool _ = False"

text \<open>
  The dtype of the converted column: \<^verbatim>\<open>float64\<close> as soon as one cell is a float or a
  null, else \<^verbatim>\<open>int64\<close> when one cell is an integer, else \<^verbatim>\<open>bool\<close>.
\<close>

definition maybe_convert_numeric :: "pyobj list \<Rightarrow> series" where
  "maybe_convert_numeric xs =
     (let cs = map convert_numeric xs
      in if list_ex is_float_or_null cs then FloatCol (map numcell_float cs)
         else if list_ex is_NumInt cs then IntCol (map numcell_int cs)
         else if cs \<noteq> [] then BoolCol (map numcell_bool cs)
         else IntCol [])"

text \<open>
  A numeric column is returned as it is, a \<^verbatim>\<open>datetime64\<close> column is viewed as its
  nanoseconds (\<^verbatim>\<open>NaT\<close> is the least 64-bit integer), an \<^verbatim>\<open>object\<close> column is converted
  cell by cell.
\<close>

fun to_numeric :: "lib \<Rightarrow> series \<Rightarrow> series" where
  "to_numeric L (ObjCol xs) = maybe_convert_numeric xs"
| "to_numeric L (DateCol ts) =
     IntCol (map (\<lambda>t. case t of None \<Rightarrow> - (2 ^ 63) | Some x \<Rightarrow> timestamp_ns L x) ts)"
| "to_numeric L s = s"

subsection \<open>\<^verbatim>\<open>.astype("Int64")\<close>\<close>

text \<open>
  A float casts to the nullable integer dtype only when the cast loses nothing: NaN is
  \<^verbatim>\<open>pd.NA\<close>, a finite float must be a whole number that fits 64 bits.
\<close>

fun safe_cast_float :: "pyfloat \<Rightarrow> int option option" where
  "safe_cast_float NaN = Some None"
| "safe_cast_float (Fin m e) =
     (if 0 \<le> e then
        (if int64_range (m * 10 ^ nat e) then Some (Some (m * 10 ^ nat e)) else None)
      else if m mod 10 ^ nat (- e) = 0 \<and> int64_range (m div 10 ^ nat (- e))
        then Some (Some (m div 10 ^ nat (- e)))
      else None)"
| "safe_cast_float _ = None"

text \<open>
  The \<^verbatim>\<open>object\<close> and \<^verbatim>\<open>datetime64\<close> cases are never reached after \<open>to_numeric\<close>, which
  returns a numeric dtype.
\<close>

fun astype_Int64 :: "series \<Rightarrow> exn + series" where
  "astype_Int64 (IntCol ns) = Inr (NIntCol (map Some ns))"
| "astype_Int64 (BoolCol bs) = Inr (NIntCol (map (\<lambda>b. Some (if b then 1 else 0)) bs))"
| "astype_Int64 (NIntCol ns) = Inr (NIntCol ns)"
| "astype_Int64 (FloatCol fs) =
     (if list_all (\<lambda>f. safe_cast_float f \<noteq> None) fs
      then Inr (NIntCol (map (\<lambda>f. the (safe_cast_float f)) fs))
      else Inl TypeError)"
| "astype_Int64 _ = Inl TypeError"

subsection \<open>\<^verbatim>\<open>pd.to_datetime(series, errors="coerce").dt.strftime("%Y-%m-%d")\<close>\<close>

fun to_datetime_cell :: "lib \<Rightarrow> pyobj list \<Rightarrow> pyobj \<Rightarrow> timestamp option" where
  "to_datetime_cell L col PNone = None"
| "to_datetime_cell L col PNaT = None"
| "to_datetime_cell L col PNA = None"
| "to_datetime_cell L col (PFloat NaN) = None"
| "to_datetime_cell L col (PTimestamp t) = Some t"
| "to_datetime_cell L col v = parse_datetime L col v"

definition to_datetime :: "lib \<Rightarrow> series \<Rightarrow> timestamp option list" where
  "to_datetime L s = map (to_datetime_cell L (series_values s)) (series_values s)"

definition pad2 :: "nat \<Rightarrow> pystr" where
  "pad2 n = (if n < 10 then 48 # nat_digits n else nat_digits n)"

definition strftime_ymd :: "timestamp \<Rightarrow> pystr" where
  "strftime_ymd t = nat_digits (ts_year t) @ [45] @ pad2 (ts_month t) @ [45] @ pad2 (ts_day t)"

text \<open>\<^verbatim>\<open>NaT\<close> formats to NaN, in a column of dtype \<^verbatim>\<open>object\<close>.\<close>

definition dt_strftime :: "timestamp option list \<Rightarrow> series" where
  "dt_strftime ts =
     ObjCol (map (\<lambda>t. case t of None \<Rightarrow> PFloat NaN | Some x \<Rightarrow> PStr (strftime_ymd x)) ts)"

text \<open>The form \<^verbatim>\<open>YYYY-MM-DD\<close>: four digits, a hyphen, two digits, a hyphen, two digits.\<close>

fun is_ymd :: "pystr \<Rightarrow> bool" where
  "is_ymd [y1, y2, y3, y4, s1, m1, m2, s2, d1, d2] =
     (is_digit y1 \<and> is_digit y2 \<and> is_digit y3 \<and> is_digit y4 \<and> s1 = 45 \<and>
      is_digit m1 \<and> is_digit m2 \<and> s2 = 45 \<and> is_digit d1 \<and> is_digit d2)"
| "is_ymd _ = False"

subsection \<open>The loop over the schema\<close>

text \<open>One entry of a schema: \<^verbatim>\<open>{"Name": ..., "Type": ...}\<close>.\<close>

record field_decl =
  Name :: pystr
  Type :: pystr

definition cast_column :: "lib \<Rightarrow> pystr \<Rightarrow> series \<Rightarrow> exn + series" where
  "cast_column L typ s =
     (if typ = ascii ''int'' then astype_Int64 (to_numeric L s)
      else if typ = ascii ''float'' then Inr (to_numeric L s)
      else if typ = ascii ''date'' then Inr (dt_strftime (to_datetime L s))
      else Inr (ObjCol (map PStr (astype_str L s))))"

fun cast_types :: "lib \<Rightarrow> frame \<Rightarrow> field_decl list \<Rightarrow> exn + frame" where
  "cast_types L df [] = Inr df"
| "cast_types L df (col # schema) =
     (case map_of (columns df) (Name col) of
        None \<Rightarrow> cast_types L df schema
      | Some s \<Rightarrow>
          (case cast_column L (Type col) s of
             Inl e \<Rightarrow> Inl e
           | Inr s' \<Rightarrow> cast_types L (update_column (Name col) (\<lambda>_. s') df) schema))"

section \<open>The serializer: \<^verbatim>\<open>export_to_ndjson\<close>\<close>

subsection \<open>\<^verbatim>\<open>json.dumps(d, ensure_ascii=False)\<close>\<close>

definition hex_digit :: "nat \<Rightarrow> nat" where
  "hex_digit d = (if d < 10 then 48 + d else 87 + d)"

text \<open>
  Inside a JSON string the quote (34), the backslash (92) and the control characters are
  escaped with a backslash; every other character, also beyond ASCII, is written as it
  is.
\<close>

definition json_escape :: "nat \<Rightarrow> pystr" where
  "json_escape c =
     (if c = 34 then [92, 34]
      else if c = 92 then [92, 92]
      else if c = 10 then [92, 110]
      else if c = 13 then [92, 114]
      else if c = 9 then [92, 116]
      else if c = 8 then [92, 98]
      else if c = 12 then [92, 102]
      else if c < 32 then [92, 117, 48, 48, hex_digit (c div 16), hex_digit (c mod 16)]
      else [c])"

definition json_string :: "pystr \<Rightarrow> pystr" where
  "json_string s = [34] @ concat (map json_escape s) @ [34]"

text \<open>
  A timestamp and \<^verbatim>\<open>NaT\<close> are not JSON serializable: \<^verbatim>\<open>TypeError\<close>. So is \<^verbatim>\<open>pd.NA\<close>, which
  \<^verbatim>\<open>row.to_dict()\<close> never hands over.
\<close>

fun json_value :: "lib \<Rightarrow> pyobj \<Rightarrow> exn + pystr" where
  "json_value L (PStr s) = Inr (json_string s)"
| "json_value L (PInt i) = Inr (int_str i)"
| "json_value L (PFloat NaN) = Inr (ascii ''NaN'')"
| "json_value L (PFloat PosInf) = Inr (ascii ''Infinity'')"
| "json_value L (PFloat NegInf) = Inr (ascii ''-Infinity'')"
| "json_value L (PFloat (Fin m e)) = Inr (float_repr L m e)"
| "json_value L (PBool b) = Inr (if b then ascii ''true'' else ascii ''false'')"
| "json_value L PNone = Inr (ascii ''null'')"
| "json_value L _ = Inl TypeError"

text \<open>The items of a dict in order, each \<^verbatim>\<open>"key": value\<close>; the first value that fails raises.\<close>

fun json_items :: "lib \<Rightarrow> (pystr \<times> pyobj) list \<Rightarrow> exn + pystr list" where
  "json_items L [] = Inr []"
| "json_items L ((k, v) # kvs) =
     (case json_value L v of
        Inl e \<Rightarrow> Inl e
      | Inr j \<Rightarrow>
          (case json_items L kvs of
             Inl e \<Rightarrow> Inl e
           | Inr js \<Rightarrow> Inr ((json_string k @ ascii '': '' @ j) # js)))"

fun join :: "pystr \<Rightarrow> pystr list \<Rightarrow> pystr" where
  "join sep [] = []"
| "join sep [x] = x"
| "join sep (x # y # ys) = x @ sep @ join sep (y # ys)"

definition json_dumps :: "lib \<Rightarrow> (pystr \<times> pyobj) list \<Rightarrow> exn + pystr" where
  "json_dumps L d =
     (case json_items L d of
        Inl e \<Rightarrow> Inl e
      | Inr js \<Rightarrow> Inr ([123] @ join (ascii '', '') js @ [125]))"

subsection \<open>\<^verbatim>\<open>df.iterrows()\<close> and \<^verbatim>\<open>row.to_dict()\<close>\<close>

text \<open>
  A row is a Series over the columns, of their common dtype (\<^verbatim>\<open>df.values\<close>). When every
  column is \<^verbatim>\<open>int64\<close> or \<^verbatim>\<open>float64\<close> and one is \<^verbatim>\<open>float64\<close>, that dtype is \<^verbatim>\<open>float64\<close> and an
  integer cell is read as a float. When the frame has one column only, of dtype \<^verbatim>\<open>Int64\<close>
  with a null in it, the column is read as \<^verbatim>\<open>float64\<close> too, the null as NaN. In every
  other case the row has dtype \<^verbatim>\<open>object\<close> and the cells keep their values.
\<close>

definition float_rows :: "frame \<Rightarrow> bool" where
  "float_rows df =
     (list_all (\<lambda>(n, s). dtype_of s = Dint64 \<or> dtype_of s = Dfloat64) (columns df)
      \<and> list_ex (\<lambda>(n, s). dtype_of s = Dfloat64) (columns df))"

fun has_null :: "series \<Rightarrow> bool" where
  "has_null (NIntCol ns) = list_ex (\<lambda>n. n = None) ns"
| "has_null _ = False"

definition masked_float_rows :: "frame \<Rightarrow> bool" where
  "masked_float_rows df = (case columns df of [(n, s)] \<Rightarrow> has_null s | _ \<Rightarrow> False)"

fun row_value :: "bool \<Rightarrow> pyobj \<Rightarrow> pyobj" where
  "row_value True (PInt i) = PFloat (Fin i 0)"
| "row_value True PNA = PFloat NaN"
| "row_value _ v = v"

text \<open>
  \<^verbatim>\<open>row.to_dict()\<close> gives native Python values: \<^verbatim>\<open>pd.NA\<close> becomes \<^verbatim>\<open>None\<close>. A timestamp and
  \<^verbatim>\<open>NaT\<close> stay what they are.
\<close>

fun maybe_box_native :: "pyobj \<Rightarrow> pyobj" where
  "maybe_box_native PNA = PNone"
| "maybe_box_native v = v"

definition row_to_dict :: "frame \<Rightarrow> nat \<Rightarrow> (pystr \<times> pyobj) list" where
  "row_to_dict df i =
     map (\<lambda>(n, s). (n, maybe_box_native
                          (row_value (float_rows df \<or> masked_float_rows df)
                             (series_values s ! i))))
       (columns df)"

definition iterrows :: "frame \<Rightarrow> (pystr \<times> pyobj) list list" where
  "iterrows df = map (row_to_dict df) [0 ..< nrows df]"

text \<open>The lines written to the file, each ended by a newline; the first row that fails raises.\<close>

fun write_rows :: "lib \<Rightarrow> (pystr \<times> pyobj) list list \<Rightarrow> exn + pystr list" where
  "write_rows L [] = Inr []"
| "write_rows L (row # rows) =
     (case json_dumps L row of
        Inl e \<Rightarrow> Inl e
      | Inr j \<Rightarrow>
          (case write_rows L rows of
             Inl e \<Rightarrow> Inl e
           | Inr ls \<Rightarrow> Inr ((j @ [10]) # ls)))"

definition export_to_ndjson :: "lib \<Rightarrow> frame \<Rightarrow> exn + pystr list" where
  "export_to_ndjson L df = write_rows L (iterrows df)"

section \<open>Building the frame: \<^verbatim>\<open>pd.DataFrame(data)\<close>\<close>

text \<open>A document is a dict: its items in order, with unique keys.\<close>

type_synonym document = "(pystr \<times> pyobj) list"

text \<open>The columns are the keys of all documents, in the order of their first appearance.\<close>

definition all_keys :: "document list \<Rightarrow> pystr list" where
  "all_keys data = rev (remdups (rev (concat (map (map fst) data))))"

text \<open>A document without the key gets NaN in that column.\<close>

definition dicts_to_array :: "document list \<Rightarrow> pystr \<Rightarrow> pyobj list" where
  "dicts_to_array data k = map (\<lambda>d. case map_of d k of None \<Rightarrow> PFloat NaN | Some v \<Rightarrow> v) data"

fun is_int64_obj :: "pyobj \<Rightarrow> bool" where
  "is_int64_obj (PInt i) = int64_range i"
| "is_int64_obj _ = False"

fun is_bool_obj :: "pyobj \<Rightarrow> bool" where
  "is_bool_obj (PBool _) = True"
| "is_bool_obj _ = False"

fun is_number_obj :: "pyobj \<Rightarrow> bool" where
  "is_number_obj (PInt _) = True"
| "is_number_obj (PFloat _) = True"
| "is_number_obj _ = False"

fun is_timestamp_obj :: "pyobj \<Rightarrow> bool" where
  "is_timestamp_obj (PTimestamp _) = True"
| "is_timestamp_obj _ = False"

fun is_null_obj :: "pyobj \<Rightarrow> bool" where
  "is_null_obj PNone = True"
| "is_null_obj PNaT = True"
| "is_null_obj (PFloat NaN) = True"
| "is_null_obj _ = False"

fun obj_int :: "pyobj \<Rightarrow> int" where
  "obj_int (PInt i) = i"
| "obj_int _ = 0"

fun obj_bool :: "pyobj \<Rightarrow> bool" where
  "obj_bool (PBool b) = b"
| "obj_bool _ = False"

fun obj_float :: "pyobj \<Rightarrow> pyfloat" where
  "obj_float (PInt i) = Fin i 0"
| "obj_float (PFloat f) = f"
| "obj_float _ = NaN"

fun obj_timestamp :: "pyobj \<Rightarrow> timestamp option" where
  "obj_timestamp (PTimestamp t) = Some t"
| "obj_timestamp _ = None"

text \<open>
  The dtype pandas infers for a column: \<^verbatim>\<open>int64\<close> for integers only, \<^verbatim>\<open>bool\<close> for
  booleans only, \<^verbatim>\<open>float64\<close> for numbers with \<^verbatim>\<open>None\<close> or NaN among them,
  \<^verbatim>\<open>datetime64[ns]\<close> for timestamps with nulls among them, and \<^verbatim>\<open>object\<close> for the rest.
\<close>

definition maybe_convert_objects :: "pyobj list \<Rightarrow> series" where
  "maybe_convert_objects xs =
     (if list_all is_int64_obj xs then IntCol (map obj_int xs)
      else if list_all is_bool_obj xs then BoolCol (map obj_bool xs)
      else if list_all (\<lambda>v. is_number_obj v \<or> is_null_obj v) xs \<and> list_ex is_number_obj xs
        then FloatCol (map obj_float xs)
      else if list_all (\<lambda>v. is_timestamp_obj v \<or> is_null_obj v) xs \<and> list_ex is_timestamp_obj xs
        then DateCol (map obj_timestamp xs)
      else ObjCol xs)"

definition DataFrame :: "document list \<Rightarrow> frame" where
  "DataFrame data =
     \<lparr>nrows = length data,
      columns = map (\<lambda>k. (k, maybe_convert_objects (dicts_to_array data k))) (all_keys data)\<rparr>"

section \<open>The orchestrator: \<^verbatim>\<open>main\<close>\<close>

definition COLLECTIONS :: "(pystr \<times> pystr) list" where
  "COLLECTIONS =
     [(ascii ''UserTiktokMetrics'', ascii ''user_tiktok_metrics/''),
      (ascii ''AdminTiktokMetrics'', ascii ''admin_tiktok_metrics/'')]"

definition field :: "string \<Rightarrow> string \<Rightarrow> field_decl" where
  "field n t = \<lparr>Name = ascii n, Type = ascii t\<rparr>"

definition common_fields :: "field_decl list" where
  "common_fields =
     [field ''postId'' ''string'',
      field ''datePosted'' ''date'',
      field ''hourPosted'' ''string'',
      field ''usernameTiktokAccount'' ''string'',
      field ''postURL'' ''string'',
      field ''views'' ''int'',
      field ''likes'' ''int'',
      field ''comments'' ''int'',
      field ''saves'' ''int'',
      field ''reposts'' ''int'',
      field ''totalInteractions'' ''int'',
      field ''engagement'' ''float'',
      field ''numberHashtags'' ''int'',
      field ''hashtags'' ''string'',
      field ''soundId'' ''string'',
      field ''soundURL'' ''string'',
      field ''regionPost'' ''string'',
      field ''dateTracking'' ''date'',
      field ''timeTracking'' ''string'']"

definition SCHEMAS :: "(pystr \<times> field_decl list) list" where
  "SCHEMAS =
     [(ascii ''UserTiktokMetrics'', common_fields @ [field ''userId'' ''int'']),
      (ascii ''AdminTiktokMetrics'', common_fields @ [field ''adminId'' ''int''])]"

text \<open>The messages the run prints: one constructor for each \<^verbatim>\<open>print\<close> of \<^verbatim>\<open>main\<close>.\<close>

datatype message =
    Processing pystr
  | EmptyCollection pystr
  | Uploading pystr pystr pystr
  | Exported pystr
  | Error pystr exn

text \<open>
  The world outside the program: the bucket name, what the database returns for a
  collection, and whether opening the local file, uploading it, removing it and writing a
  message to the standard output succeed (\<open>None\<close>) or raise. A message may fail to be
  written: every message of the program holds a character outside ASCII, which a
  standard output of another encoding rejects with \<^verbatim>\<open>UnicodeEncodeError\<close>.
\<close>

record env =
  bucket_name :: pystr
  find_all :: "pystr \<Rightarrow> exn + document list"
  open_write :: "pystr \<Rightarrow> exn option"
  upload_file :: "pystr \<Rightarrow> pystr \<Rightarrow> pystr list \<Rightarrow> exn option"
  remove_file :: "pystr \<Rightarrow> exn option"
  write_stdout :: "message \<Rightarrow> exn option"

text \<open>What the run has printed, and the objects it has put in the bucket (bucket, key, lines).\<close>

record world =
  stdout :: "message list"
  uploaded :: "(pystr \<times> pystr \<times> pystr list) list"

text \<open>\<^verbatim>\<open>print(...)\<close>: the message is written, or the write raises.\<close>

definition print :: "env \<Rightarrow> message \<Rightarrow> world \<Rightarrow> exn + world" where
  "print E m w =
     (case write_stdout E m of
        None \<Rightarrow> Inr (w\<lparr>stdout := stdout w @ [m]\<rparr>)
      | Some e \<Rightarrow> Inl e)"

text \<open>\<^verbatim>\<open>if "_id" in df.columns: df.drop(columns=["_id"], inplace=True)\<close>\<close>

definition drop_id :: "frame \<Rightarrow> frame" where
  "drop_id df =
     (if ascii ''_id'' \<in> set (column_names df)
      then df\<lparr>columns := filter (\<lambda>(n, s). n \<noteq> ascii ''_id'') (columns df)\<rparr>
      else df)"

text \<open>
  The lines 138 to 147 of \<^verbatim>\<open>main\<close> on their own: from the documents of a collection to
  the lines of its file.
\<close>

definition export_lines :: "lib \<Rightarrow> field_decl list \<Rightarrow> document list \<Rightarrow> exn + pystr list" where
  "export_lines L schema data =
     (case cast_types L (clean_dataframe L (drop_id (DataFrame data))) schema of
        Inl e \<Rightarrow> Inl e
      | Inr df \<Rightarrow> export_to_ndjson L df)"

text \<open>
  The body of the \<^verbatim>\<open>try\<close> for one collection: the world it leaves, and the exception it
  raised if any.
\<close>

definition process_collection ::
  "lib \<Rightarrow> env \<Rightarrow> pystr \<Rightarrow> pystr \<Rightarrow> world \<Rightarrow> world \<times> exn option" where
  "process_collection L E collection_name folder w =
     (case print E (Processing collection_name) w of
        Inl e \<Rightarrow> (w, Some e)
      | Inr w1 \<Rightarrow>
     (case find_all E collection_name of
        Inl e \<Rightarrow> (w1, Some e)
      | Inr data \<Rightarrow>
          if data = [] then
            (case print E (EmptyCollection collection_name) w1 of
               Inl e \<Rightarrow> (w1, Some e)
             | Inr w2 \<Rightarrow> (w2, None))
          else
            let df = clean_dataframe L (drop_id (DataFrame data)) in
            (case map_of SCHEMAS collection_name of
               None \<Rightarrow> (w1, Some KeyError)
             | Some schema \<Rightarrow>
            (case cast_types L df schema of
               Inl e \<Rightarrow> (w1, Some e)
             | Inr df' \<Rightarrow>
            let filename = collection_name @ ascii ''.json'' in
            (case open_write E filename of
               Some e \<Rightarrow> (w1, Some e)
             | None \<Rightarrow>
            (case export_to_ndjson L df' of
               Inl e \<Rightarrow> (w1, Some e)
             | Inr content \<Rightarrow>
            let s3_key = folder @ filename in
            (case print E (Uploading filename (bucket_name E) s3_key) w1 of
               Inl e \<Rightarrow> (w1, Some e)
             | Inr w2 \<Rightarrow>
            (case upload_file E (bucket_name E) s3_key content of
               Some e \<Rightarrow> (w2, Some e)
             | None \<Rightarrow>
            let w3 = w2\<lparr>uploaded := uploaded w2 @ [(bucket_name E, s3_key, content)]\<rparr> in
            (case print E (Exported collection_name) w3 of
               Inl e \<Rightarrow> (w3, Some e)
             | Inr w4 \<Rightarrow> (w4, remove_file E filename))))))))))"

text \<open>
  The loop of \<^verbatim>\<open>main\<close>: \<^verbatim>\<open>except Exception\<close> catches what is derived from \<^verbatim>\<open>Exception\<close>
  and prints it, and the loop goes on. Anything else ends the run (\<open>Inl\<close>), and so does
  an exception of the \<^verbatim>\<open>print\<close> in the handler, which is outside any \<^verbatim>\<open>try\<close>.
\<close>

fun main_loop :: "lib \<Rightarrow> env \<Rightarrow> (pystr \<times> pystr) list \<Rightarrow> world \<Rightarrow> exn + world" where
  "main_loop L E [] w = Inr w"
| "main_loop L E ((collection_name, folder) # rest) w =
     (case process_collection L E collection_name folder w of
        (w', None) \<Rightarrow> main_loop L E rest w'
      | (w', Some e) \<Rightarrow>
          if is_Exception e then
            (case print E (Error collection_name e) w' of
               Inl e' \<Rightarrow> Inl e'
             | Inr w'' \<Rightarrow> main_loop L E rest w'')
          else Inl e)"

text \<open>The world at the start of the run.\<close>

definition start :: world where
  "start = \<lparr>stdout = [], uploaded = []\<rparr>"

definition main :: "lib \<Rightarrow> env \<Rightarrow> exn + world" where
  "main L E = main_loop L E COLLECTIONS start"


definition uploads :: "lib \<Rightarrow> env \<Rightarrow> pystr \<times> pystr \<Rightarrow> (pystr \<times> pystr \<times> pystr list) list" where
  "uploads L E c = uploaded (fst (process_collection L E (fst c) (snd c) start))"


section \<open>Examples\<close>

text \<open>
  An instance of the library parameters for the examples. A finite float is printed in
  positional notation, which is what Python prints for the floats of the examples; a
  timestamp is printed as its date; no string, number or boolean parses as a date.
\<close>

definition positional :: "int \<Rightarrow> int \<Rightarrow> pystr" where
  "positional m e =
     (if 0 \<le> e then int_str (m * 10 ^ nat e) @ ascii ''.0''
      else
        let k = nat (- e); a = nat \<bar>m\<bar>; fp = nat_digits (a mod 10 ^ k)
        in (if m < 0 then [45] else []) @ nat_digits (a div 10 ^ k) @ [46]
           @ replicate (k - length fp) 48 @ fp)"

definition example_lib :: lib where
  "example_lib =
     \<lparr>float_repr = positional,
      timestamp_str = strftime_ymd,
      parse_datetime = (\<lambda>col v. None),
      timestamp_ns = (\<lambda>t. 0)\<rparr>"

definition example_frame :: frame where
  "example_frame =
     \<lparr>nrows = 2,
      columns =
        [(ascii ''postId'', ObjCol [PStr [97, 13, 10, 9, 233, 98, 127], PNone]),
         (ascii ''promoted'', BoolCol [True, False]),
         (ascii ''views'', IntCol [1, 2])]\<rparr>"

definition views_frame :: frame where
  "views_frame =
     \<lparr>nrows = 2,
      columns =
        [(ascii ''postId'', ObjCol [PStr (ascii ''p1''), PStr (ascii ''p2'')]),
         (ascii ''views'', ObjCol [PStr (ascii ''1,234''), PStr (ascii ''12'')])]\<rparr>"

text \<open>A frame with a column of timestamps, one of them \<^verbatim>\<open>NaT\<close>.\<close>

definition dates_frame :: frame where
  "dates_frame =
     \<lparr>nrows = 2,
      columns =
        [(ascii ''postId'', ObjCol [PStr (ascii ''p1''), PStr (ascii ''p2'')]),
         (ascii ''datePosted'', DateCol [Some (Timestamp 2024 11 5 36000000000000), None])]\<rparr>"

text \<open>An environment where the first collection cannot be fetched and the second has one document.\<close>

definition example_env :: env where
  "example_env =
     \<lparr>bucket_name = ascii ''my-bucket'',
      find_all = (\<lambda>n. if n = ascii ''AdminTiktokMetrics''
                       then Inr [[(ascii ''_id'', PInt 7), (ascii ''postId'', PStr (ascii ''p1'')),
                                  (ascii ''views'', PInt 10)]]
                       else Inl (LibraryError (ascii ''connection refused''))),
      open_write = (\<lambda>n. None),
      upload_file = (\<lambda>b k c. None),
      remove_file = (\<lambda>n. None),
      write_stdout = (\<lambda>m. None)\<rparr>"


text \<open>
  Documents of a collection: one without \<^verbatim>\<open>engagement\<close>, one without \<^verbatim>\<open>views\<close>, one whose
  \<^verbatim>\<open>views\<close> is 1.5, and one with a date in a field that no schema declares.
\<close>

definition missing_engagement :: "document list" where
  "missing_engagement =
     [[(ascii ''_id'', PInt 1), (ascii ''postId'', PStr (ascii ''p1'')),
       (ascii ''engagement'', PFloat (Fin 5 (- 1)))],
      [(ascii ''_id'', PInt 2), (ascii ''postId'', PStr (ascii ''p2''))]]"

definition missing_views :: "document list" where
  "missing_views =
     [[(ascii ''postId'', PStr (ascii ''p1'')), (ascii ''views'', PInt 10)],
      [(ascii ''postId'', PStr (ascii ''p2''))]]"

definition fractional_views :: "document list" where
  "fractional_views =
     [[(ascii ''postId'', PStr (ascii ''p1'')), (ascii ''views'', PFloat (Fin 15 (- 1)))]]"

definition undeclared_date :: "document list" where
  "undeclared_date =
     [[(ascii ''postId'', PStr (ascii ''p1'')),
       (ascii ''createdAt'', PTimestamp (Timestamp 2024 11 5 36000000000000))]]"

section \<open>Properties of the sanitizer\<close>

lemma foldl_update_column_nrows:
  "nrows (foldl (\<lambda>d col. update_column col f d) df cols) = nrows df"
  by (induction cols arbitrary: df) (simp_all add: update_column_def)

lemma foldl_update_column_columns:
  "distinct cols \<Longrightarrow>
   columns (foldl (\<lambda>d col. update_column col f d) df cols) =
     map (\<lambda>(n, s). (n, if n \<in> set cols then f s else s)) (columns df)"
proof (induction cols arbitrary: df)
  case Nil
  then show ?case by (simp add: case_prod_unfold)
next
  case (Cons c cs)
  then have "columns (foldl (\<lambda>d col. update_column col f d) (update_column c f df) cs) =
     map (\<lambda>(n, s). (n, if n \<in> set cs then f s else s)) (columns (update_column c f df))"
    by simp
  with Cons.prems show ?case
    by (auto simp: update_column_def case_prod_unfold)
qed

lemma filter_fst_mem:
  "distinct (map fst kvs) \<Longrightarrow> (k, v) \<in> set kvs \<Longrightarrow>
   k \<in> fst ` set (filter P kvs) \<longleftrightarrow> P (k, v)"
  by (induction kvs) (auto simp: rev_image_eqI)

lemma sanitize_chars:
  "remove_nonprintable (replace_crlftab s) =
     concat (map (\<lambda>c. if c = 13 \<or> c = 10 \<or> c = 9 then [32]
                       else if 32 \<le> c \<and> c \<le> 126 then [c] else []) s)"
  by (induction s) (auto simp: remove_nonprintable_def replace_crlftab_def)

lemma sanitize_printable:
  "c \<in> set (remove_nonprintable t) \<Longrightarrow> 32 \<le> c \<and> c \<le> 126"
  by (simp add: remove_nonprintable_def)

lemma clean_dataframe_columns:
  assumes "distinct (column_names df)"
  shows "columns (clean_dataframe L df) =
     map (\<lambda>(n, s). (n, if dtype_of s = Dobject \<or> dtype_of s = Dbool then clean_series L s else s))
       (columns df)"
proof -
  let ?sel = "select_dtypes_object_bool df"
  have d: "distinct ?sel"
    using assms by (simp add: select_dtypes_object_bool_def column_names_def distinct_map_filter)
  have "columns (clean_dataframe L df) =
     map (\<lambda>(n, s). (n, if n \<in> set ?sel then clean_series L s else s)) (columns df)"
    unfolding clean_dataframe_def by (rule foldl_update_column_columns [OF d])
  also have "\<dots> = map (\<lambda>(n, s). (n, if dtype_of s = Dobject \<or> dtype_of s = Dbool
                                    then clean_series L s else s)) (columns df)"
  proof (rule map_cong [OF refl])
    fix x assume x: "x \<in> set (columns df)"
    obtain n s where ns: "x = (n, s)" by (cases x)
    have "n \<in> set ?sel \<longleftrightarrow> (dtype_of s = Dobject \<or> dtype_of s = Dbool)"
      using filter_fst_mem [of "columns df" n s "\<lambda>(n, s). dtype_of s = Dobject \<or> dtype_of s = Dbool"]
        assms x ns
      by (simp add: select_dtypes_object_bool_def column_names_def)
    then show "(case x of (n, s) \<Rightarrow> (n, if n \<in> set ?sel then clean_series L s else s)) =
          (case x of (n, s) \<Rightarrow> (n, if dtype_of s = Dobject \<or> dtype_of s = Dbool
                                    then clean_series L s else s))"
      using ns by simp
  qed
  finally show ?thesis .
qed


lemma clean_series_chars:
  "clean_series L s =
     ObjCol (map (\<lambda>v. PStr (concat (map (\<lambda>c. if c = 13 \<or> c = 10 \<or> c = 9 then [32]
                                            else if 32 \<le> c \<and> c \<le> 126 then [c] else [])
                                      (py_str L v))))
              (series_values s))"
  by (simp add: clean_series_def astype_str_def sanitize_chars)

lemma no_text_in_typed_column:
  "dtype_of s \<noteq> Dobject \<Longrightarrow> PStr t \<notin> set (series_values s)"
  by (cases s) (auto split: option.splits)

text \<open>
  Claim C1. For a frame with unique column names, \<open>clean_dataframe\<close> keeps the rows and
  the columns, replaces every column of dtype \<^verbatim>\<open>object\<close> or \<^verbatim>\<open>bool\<close> by the text of its cells
  in which every carriage return, newline and tab is one space and every other character
  outside 0x20-0x7E is deleted, and leaves every other column as it is; so no text cell of
  the result holds a carriage return, a newline, a tab or a character outside 0x20-0x7E.
\<close>

theorem clean_dataframe_sanitizes:
  assumes "distinct (column_names df)"
  shows "nrows (clean_dataframe L df) = nrows df \<and>
     columns (clean_dataframe L df) =
       map (\<lambda>(n, s).
              (n, if dtype_of s = Dobject \<or> dtype_of s = Dbool
                  then ObjCol (map (\<lambda>v. PStr (concat (map (\<lambda>c. if c = 13 \<or> c = 10 \<or> c = 9 then [32]
                                                              else if 32 \<le> c \<and> c \<le> 126 then [c]
                                                              else []) (py_str L v))))
                                (series_values s))
                  else s))
         (columns df) \<and>
     (\<forall>(n, s) \<in> set (columns (clean_dataframe L df)). \<forall>t. PStr t \<in> set (series_values s) \<longrightarrow>
        (\<forall>c \<in> set t. 32 \<le> c \<and> c \<le> 126) \<and> 13 \<notin> set t \<and> 10 \<notin> set t \<and> 9 \<notin> set t)"
proof (intro conjI)
  show "nrows (clean_dataframe L df) = nrows df"
    by (simp add: clean_dataframe_def foldl_update_column_nrows)
  show "columns (clean_dataframe L df) =
       map (\<lambda>(n, s).
              (n, if dtype_of s = Dobject \<or> dtype_of s = Dbool
                  then ObjCol (map (\<lambda>v. PStr (concat (map (\<lambda>c. if c = 13 \<or> c = 10 \<or> c = 9 then [32]
                                                              else if 32 \<le> c \<and> c \<le> 126 then [c]
                                                              else []) (py_str L v))))
                                (series_values s))
                  else s))
         (columns df)"
    unfolding clean_dataframe_columns [OF assms] clean_series_chars ..
  show "\<forall>(n, s) \<in> set (columns (clean_dataframe L df)). \<forall>t. PStr t \<in> set (series_values s) \<longrightarrow>
        (\<forall>c \<in> set t. 32 \<le> c \<and> c \<le> 126) \<and> 13 \<notin> set t \<and> 10 \<notin> set t \<and> 9 \<notin> set t"
  proof (clarify)
    fix n s t
    assume mem: "(n, s) \<in> set (columns (clean_dataframe L df))"
      and t: "PStr t \<in> set (series_values s)"
    from mem obtain s0 where s0: "(n, s0) \<in> set (columns df)"
      and s: "s = (if dtype_of s0 = Dobject \<or> dtype_of s0 = Dbool then clean_series L s0 else s0)"
      by (auto simp: clean_dataframe_columns [OF assms])
    have "\<exists>u. t = remove_nonprintable u"
    proof (cases "dtype_of s0 = Dobject \<or> dtype_of s0 = Dbool")
      case True
      with s t show ?thesis by (auto simp: clean_series_def)
    next
      case False
      with s t no_text_in_typed_column [of s0 t] show ?thesis by simp
    qed
    then obtain u where u: "t = remove_nonprintable u" ..
    have p: "\<forall>c \<in> set t. 32 \<le> c \<and> c \<le> 126"
      using u by (simp add: remove_nonprintable_def)
    then show "(\<forall>c \<in> set t. 32 \<le> c \<and> c \<le> 126) \<and> 13 \<notin> set t \<and> 10 \<notin> set t \<and> 9 \<notin> set t"
      by fastforce
  qed
qed

theorem clean_dataframe_sanitizes_witness:
  "distinct (column_names example_frame) \<and>
   clean_dataframe example_lib example_frame =
     \<lparr>nrows = 2,
      columns =
        [(ascii ''postId'', ObjCol [PStr (ascii ''a   b''), PStr (ascii ''None'')]),
         (ascii ''promoted'', ObjCol [PStr (ascii ''True''), PStr (ascii ''False'')]),
         (ascii ''views'', IntCol [1, 2])]\<rparr>"
proof -
  have d: "distinct (column_names example_frame)"
    by (simp add: example_frame_def column_names_def ascii_def)
  have "clean_dataframe example_lib example_frame =
      \<lparr>nrows = nrows (clean_dataframe example_lib example_frame),
       columns = columns (clean_dataframe example_lib example_frame)\<rparr>"
    by simp
  with d clean_dataframe_sanitizes [OF d, of example_lib] show ?thesis
    by (simp add: example_frame_def ascii_def bool_str_def)
qed

section \<open>Properties of the type caster\<close>

lemma map_of_update_column:
  "map_of (columns (update_column n f df)) m =
     (if m = n then map_option f (map_of (columns df) m) else map_of (columns df) m)"
proof -
  have "map_of (map (\<lambda>(k, s). if k = n then (k, f s) else (k, s)) kvs) m =
     (if m = n then map_option f (map_of kvs m) else map_of kvs m)" for kvs
    by (induction kvs) auto
  then show ?thesis by (simp add: update_column_def)
qed

lemma column_names_update_column [simp]:
  "column_names (update_column n f df) = column_names df"
  by (simp add: update_column_def column_names_def comp_def case_prod_unfold)

lemma nrows_update_column [simp]: "nrows (update_column n f df) = nrows df"
  by (simp add: update_column_def)

lemma cast_types_shape:
  "cast_types L df schema = Inr df' \<Longrightarrow>
   column_names df' = column_names df \<and> nrows df' = nrows df"
  by (induction schema arbitrary: df) (auto split: option.splits sum.splits)

lemma cast_types_untouched:
  "cast_types L df schema = Inr df' \<Longrightarrow> n \<notin> Name ` set schema \<Longrightarrow>
   map_of (columns df') n = map_of (columns df) n"
  by (induction schema arbitrary: df) (auto simp: map_of_update_column split: option.splits sum.splits)

lemma cast_types_declared:
  "cast_types L df schema = Inr df' \<Longrightarrow> distinct (map Name schema) \<Longrightarrow> c \<in> set schema \<Longrightarrow>
   map_of (columns df) (Name c) = Some s \<Longrightarrow>
   \<exists>s'. cast_column L (Type c) s = Inr s' \<and> map_of (columns df') (Name c) = Some s'"
proof (induction schema arbitrary: df)
  case Nil
  then show ?case by simp
next
  case (Cons d schema)
  show ?case
  proof (cases "d = c")
    case True
    from Cons.prems True obtain s' where s': "cast_column L (Type c) s = Inr s'"
      and rest: "cast_types L (update_column (Name c) (\<lambda>_. s') df) schema = Inr df'"
      by (auto split: sum.splits)
    from Cons.prems True have "Name c \<notin> Name ` set schema" by auto
    from cast_types_untouched [OF rest this] Cons.prems(4)
    have "map_of (columns df') (Name c) = Some s'"
      by (simp add: map_of_update_column)
    with s' show ?thesis by blast
  next
    case False
    with Cons.prems have ne: "Name d \<noteq> Name c" and c: "c \<in> set schema" and d: "distinct (map Name schema)"
      by auto
    show ?thesis
    proof (cases "map_of (columns df) (Name d)")
      case None
      with Cons.prems have "cast_types L df schema = Inr df'" by simp
      from Cons.IH [OF this d c Cons.prems(4)] show ?thesis .
    next
      case (Some sd)
      with Cons.prems obtain sd' where
        rest: "cast_types L (update_column (Name d) (\<lambda>_. sd') df) schema = Inr df'"
        by (auto split: sum.splits)
      have "map_of (columns (update_column (Name d) (\<lambda>_. sd') df)) (Name c) = Some s"
        using ne Cons.prems(4) by (simp add: map_of_update_column)
      from Cons.IH [OF rest d c this] show ?thesis .
    qed
  qed
qed

lemma convert_numeric_delimiter: "convert_numeric (PStr (ascii ''1,234'')) = NumNull"
  by (simp add: xstrtod_def special_float_def ascii_def is_space_def is_digit_def lower_def
      digits_value_def)

lemma length_series_values_to_numeric:
  "length (series_values (to_numeric L s)) = length (series_values s)"
  by (cases s) (simp_all add: maybe_convert_numeric_def Let_def)

lemma astype_Int64_result:
  "astype_Int64 s = Inr s' \<Longrightarrow> \<exists>ns. s' = NIntCol ns \<and> length ns = length (series_values s)"
  by (cases s) (auto split: if_splits)

lemma astype_Int64_null:
  "astype_Int64 (FloatCol fs) = Inr (NIntCol ns) \<Longrightarrow> i < length fs \<Longrightarrow> fs ! i = NaN \<Longrightarrow> ns ! i = None"
  by (auto split: if_splits)

lemma maybe_convert_numeric_null:
  assumes "i < length xs" "convert_numeric (xs ! i) = NumNull"
  shows "\<exists>fs. maybe_convert_numeric xs = FloatCol fs \<and> fs ! i = NaN"
proof -
  from assms(1) have "xs ! i \<in> set xs" by simp
  with assms(2) have "list_ex is_float_or_null (map convert_numeric xs)"
    unfolding list_ex_iff by force
  with assms show ?thesis
    by (simp add: maybe_convert_numeric_def)
qed

lemma to_numeric_null:
  assumes "i < length (series_values s)" "convert_numeric (PStr t) = NumNull"
    "series_values s ! i = PStr t"
  shows "\<exists>fs. to_numeric L s = FloatCol fs \<and> fs ! i = NaN"
proof (cases s)
  case (ObjCol xs)
  with assms maybe_convert_numeric_null [of i xs] show ?thesis by simp
qed (use assms in \<open>auto split: option.splits\<close>)


lemma cast_int_column:
  assumes "astype_Int64 (to_numeric L s) = Inr s'"
  shows "\<exists>ns. s' = NIntCol ns \<and> length ns = length (series_values s) \<and>
     (\<forall>i < length ns. \<forall>t. series_values s ! i = PStr t \<and> convert_numeric (PStr t) = NumNull
        \<longrightarrow> ns ! i = None)"
proof -
  from astype_Int64_result [OF assms] obtain ns where ns: "s' = NIntCol ns"
    and len: "length ns = length (series_values s)"
    by (auto simp: length_series_values_to_numeric)
  have "ns ! i = None"
    if i: "i < length ns" and t: "series_values s ! i = PStr t"
      and n: "convert_numeric (PStr t) = NumNull" for i t
  proof -
    from to_numeric_null [of i s t L] i len t n obtain fs
      where fs: "to_numeric L s = FloatCol fs" "fs ! i = NaN"
      by auto
    with length_series_values_to_numeric [of L s] have "length fs = length (series_values s)"
      by simp
    with i len fs assms ns astype_Int64_null [of fs ns i] show ?thesis by simp
  qed
  with ns len show ?thesis by blast
qed

text \<open>
  Claim C2. Let the schema declare each name once and declare a field of type \<^verbatim>\<open>int\<close>
  that the frame has. When \<open>cast_types\<close> returns, the column of that field has the nullable
  integer dtype: each of its cells is an integer or null, never a string. A cell that held
  a string the number parser rejects is null; the string \<^verbatim>\<open>1,234\<close> is such a string. A
  column that was \<^verbatim>\<open>int64\<close> keeps its integers.
\<close>

theorem cast_types_integer_or_null:
  assumes "distinct (map Name schema)"
    and "c \<in> set schema" and "Type c = ascii ''int''"
    and "map_of (columns df) (Name c) = Some s"
    and "cast_types L df schema = Inr df'"
  shows "\<exists>ns. map_of (columns df') (Name c) = Some (NIntCol ns) \<and>
     length ns = length (series_values s) \<and>
     (\<forall>i < length ns. \<forall>t. series_values s ! i = PStr t \<and> xstrtod t = None \<and> special_float t = None
        \<longrightarrow> ns ! i = None) \<and>
     (\<forall>i < length ns. series_values s ! i = PStr (ascii ''1,234'') \<longrightarrow> ns ! i = None) \<and>
     (\<forall>ks. s = IntCol ks \<longrightarrow> ns = map Some ks)"
proof -
  from cast_types_declared [OF assms(5) assms(1) assms(2) assms(4)] assms(3)
  obtain s' where c: "astype_Int64 (to_numeric L s) = Inr s'"
    and s': "map_of (columns df') (Name c) = Some s'"
    by (auto simp: cast_column_def)
  from cast_int_column [OF c] obtain ns where ns: "s' = NIntCol ns"
    and len: "length ns = length (series_values s)"
    and null: "\<And>i t. i < length ns \<Longrightarrow> series_values s ! i = PStr t \<Longrightarrow>
        convert_numeric (PStr t) = NumNull \<Longrightarrow> ns ! i = None"
    by blast
  have "ns ! i = None"
    if "i < length ns" "series_values s ! i = PStr t" "xstrtod t = None" "special_float t = None"
    for i t
    using null [of i t] that by simp
  moreover have "ns ! i = None"
    if "i < length ns" "series_values s ! i = PStr (ascii ''1,234'')" for i
    using null [of i "ascii ''1,234''"] that convert_numeric_delimiter by simp
  moreover have "ns = map Some ks" if "s = IntCol ks" for ks
    using c ns that by simp
  ultimately show ?thesis using s' ns len by blast
qed

lemma distinct_user_schema:
  "distinct (map Name (common_fields @ [field ''userId'' ''int'']))"
  by (simp add: common_fields_def field_def ascii_def)

lemma cast_types_views_frame:
  "cast_types example_lib views_frame (common_fields @ [field ''userId'' ''int'']) =
     Inr \<lparr>nrows = 2,
          columns =
            [(ascii ''postId'', ObjCol [PStr (ascii ''p1''), PStr (ascii ''p2'')]),
             (ascii ''views'', NIntCol [None, Some 12])]\<rparr>"
  by (simp add: common_fields_def field_def ascii_def views_frame_def cast_column_def
      update_column_def astype_str_def maybe_convert_numeric_def xstrtod_def special_float_def
      lower_def is_space_def is_digit_def digits_value_def int64_range_def)

theorem cast_types_integer_or_null_witness:
  "distinct (map Name (common_fields @ [field ''userId'' ''int''])) \<and>
   field ''views'' ''int'' \<in> set (common_fields @ [field ''userId'' ''int'']) \<and>
   Type (field ''views'' ''int'') = ascii ''int'' \<and>
   map_of (columns views_frame) (Name (field ''views'' ''int'')) =
     Some (ObjCol [PStr (ascii ''1,234''), PStr (ascii ''12'')]) \<and>
   cast_types example_lib views_frame (common_fields @ [field ''userId'' ''int'']) =
     Inr \<lparr>nrows = 2,
          columns =
            [(ascii ''postId'', ObjCol [PStr (ascii ''p1''), PStr (ascii ''p2'')]),
             (ascii ''views'', NIntCol [None, Some 12])]\<rparr> \<and>
   (\<exists>ns. map_of [(ascii ''postId'', ObjCol [PStr (ascii ''p1''), PStr (ascii ''p2'')]),
                  (ascii ''views'', NIntCol [None, Some 12])] (ascii ''views'') = Some (NIntCol ns)
         \<and> ns ! 0 = None)"
proof -
  have h1: "distinct (map Name (common_fields @ [field ''userId'' ''int'']))"
    by (rule distinct_user_schema)
  have h2: "field ''views'' ''int'' \<in> set (common_fields @ [field ''userId'' ''int''])"
    by (simp add: common_fields_def)
  have h3: "Type (field ''views'' ''int'') = ascii ''int''"
    by (simp add: field_def)
  have h4: "map_of (columns views_frame) (Name (field ''views'' ''int'')) =
      Some (ObjCol [PStr (ascii ''1,234''), PStr (ascii ''12'')])"
    by (simp add: views_frame_def field_def ascii_def)
  note h5 = cast_types_views_frame
  from cast_types_integer_or_null [OF h1 h2 h3 h4 h5]
  obtain ns where
    "map_of [(ascii ''postId'', ObjCol [PStr (ascii ''p1''), PStr (ascii ''p2'')]),
             (ascii ''views'', NIntCol [None, Some 12])] (Name (field ''views'' ''int'')) =
       Some (NIntCol ns)"
    and "\<forall>i < length ns. series_values (ObjCol [PStr (ascii ''1,234''), PStr (ascii ''12'')]) ! i =
           PStr (ascii ''1,234'') \<longrightarrow> ns ! i = None"
    and "length ns = length (series_values (ObjCol [PStr (ascii ''1,234''), PStr (ascii ''12'')]))"
    by auto
  then have "\<exists>ns. map_of [(ascii ''postId'', ObjCol [PStr (ascii ''p1''), PStr (ascii ''p2'')]),
                  (ascii ''views'', NIntCol [None, Some 12])] (ascii ''views'') = Some (NIntCol ns)
         \<and> ns ! 0 = None"
    by (auto simp: field_def)
  with h1 h2 h3 h4 h5 show ?thesis by blast
qed

lemma nat_digits_one: "n < 10 \<Longrightarrow> nat_digits n = [48 + n]"
  by (subst nat_digits.simps) simp

lemma nat_digits_two:
  "10 \<le> n \<Longrightarrow> n < 100 \<Longrightarrow> nat_digits n = [48 + n div 10, 48 + n mod 10]"
  by (subst nat_digits.simps) (simp add: nat_digits_one)

lemma nat_digits_three:
  "100 \<le> n \<Longrightarrow> n < 1000 \<Longrightarrow>
   nat_digits n = [48 + n div 100, 48 + n div 10 mod 10, 48 + n mod 10]"
  by (subst nat_digits.simps) (simp add: nat_digits_two div_mult2_eq [symmetric])

lemma nat_digits_four:
  "1000 \<le> n \<Longrightarrow> n < 10000 \<Longrightarrow>
   nat_digits n = [48 + n div 1000, 48 + n div 100 mod 10, 48 + n div 10 mod 10, 48 + n mod 10]"
  by (subst nat_digits.simps) (simp add: nat_digits_three div_mult2_eq [symmetric])

lemma ts_year_range: "1677 \<le> ts_year t \<and> ts_year t \<le> 2262"
  by transfer auto

lemma ts_month_range: "1 \<le> ts_month t \<and> ts_month t \<le> 12"
  by transfer auto

lemma ts_day_range: "1 \<le> ts_day t \<and> ts_day t \<le> 31"
  by transfer auto

lemma is_digit_digit: "d < 10 \<Longrightarrow> is_digit (48 + d)"
  by (simp add: is_digit_def)

lemma pad2_digits: "n < 100 \<Longrightarrow> \<exists>a b. pad2 n = [a, b] \<and> is_digit a \<and> is_digit b"
proof (cases "n < 10")
  case True
  then show ?thesis by (simp add: pad2_def nat_digits_one is_digit_def)
next
  case False
  assume "n < 100"
  then have "n div 10 < 10" by (simp add: div_less_iff_less_mult)
  moreover have "n mod 10 < 10" by simp
  ultimately have "n div 10 \<le> 9" "n mod 10 \<le> 9" by linarith+
  with False \<open>n < 100\<close> show ?thesis
    by (simp add: pad2_def nat_digits_two is_digit_def)
qed

lemma year_digits:
  "1000 \<le> n \<Longrightarrow> n < 10000 \<Longrightarrow>
   \<exists>a b c d. nat_digits n = [a, b, c, d] \<and> is_digit a \<and> is_digit b \<and> is_digit c \<and> is_digit d"
proof -
  assume n: "1000 \<le> n" "n < 10000"
  then have "n div 1000 < 10" by (simp add: div_less_iff_less_mult)
  moreover have "n div 100 mod 10 < 10" "n div 10 mod 10 < 10" "n mod 10 < 10" by simp_all
  ultimately have "n div 1000 \<le> 9" "n div 100 mod 10 \<le> 9" "n div 10 mod 10 \<le> 9" "n mod 10 \<le> 9"
    by linarith+
  with n show ?thesis by (simp add: nat_digits_four is_digit_def)
qed

lemma is_ymd_strftime: "is_ymd (strftime_ymd t)"
proof -
  from ts_year_range [of t] obtain a b c d where y: "nat_digits (ts_year t) = [a, b, c, d]"
    "is_digit a" "is_digit b" "is_digit c" "is_digit d"
    using year_digits [of "ts_year t"] by auto
  from ts_month_range [of t] obtain m1 m2 where m: "pad2 (ts_month t) = [m1, m2]"
    "is_digit m1" "is_digit m2"
    using pad2_digits [of "ts_month t"] by auto
  from ts_day_range [of t] obtain d1 d2 where d: "pad2 (ts_day t) = [d1, d2]"
    "is_digit d1" "is_digit d2"
    using pad2_digits [of "ts_day t"] by auto
  from y m d show ?thesis by (simp add: strftime_ymd_def)
qed

lemma strftime_ignores_time:
  "strftime_ymd (Timestamp y m d t1) = strftime_ymd (Timestamp y m d t2)"
proof -
  have "ts_year (Timestamp y m d t1) = ts_year (Timestamp y m d t2)"
    "ts_month (Timestamp y m d t1) = ts_month (Timestamp y m d t2)"
    "ts_day (Timestamp y m d t1) = ts_day (Timestamp y m d t2)"
    by (transfer, simp)+
  then show ?thesis by (simp add: strftime_ymd_def)
qed

lemma length_to_datetime [simp]: "length (to_datetime L s) = length (series_values s)"
  by (simp add: to_datetime_def)

text \<open>
  Claim C4. Let the schema declare each name once and declare a field of type \<^verbatim>\<open>date\<close>
  that the frame has. When \<open>cast_types\<close> returns, each cell of that column is NaN where
  the value did not parse to a timestamp (a null value never does), and else the date of
  the timestamp as text; that text has the form \<^verbatim>\<open>YYYY-MM-DD\<close> and does not depend on
  the time of day.
\<close>

theorem cast_types_date_or_null:
  assumes "distinct (map Name schema)"
    and "c \<in> set schema" and "Type c = ascii ''date''"
    and "map_of (columns df) (Name c) = Some s"
    and "cast_types L df schema = Inr df'"
  shows "\<exists>cells. map_of (columns df') (Name c) = Some (ObjCol cells) \<and>
     length cells = length (series_values s) \<and>
     (\<forall>i < length cells.
        case to_datetime_cell L (series_values s) (series_values s ! i) of
          None \<Rightarrow> cells ! i = PFloat NaN
        | Some t \<Rightarrow> cells ! i = PStr (strftime_ymd t) \<and> is_ymd (strftime_ymd t)) \<and>
     (\<forall>v \<in> set cells. v = PFloat NaN \<or> (\<exists>t. v = PStr t \<and> is_ymd t)) \<and>
     (\<forall>y m d t1 t2. strftime_ymd (Timestamp y m d t1) = strftime_ymd (Timestamp y m d t2))"
proof -
  let ?ts = "to_datetime L s"
  let ?cells = "map (\<lambda>t. case t of None \<Rightarrow> PFloat NaN | Some x \<Rightarrow> PStr (strftime_ymd x)) ?ts"
  have ne: "ascii ''date'' \<noteq> ascii ''int''" "ascii ''date'' \<noteq> ascii ''float''"
    by (simp_all add: ascii_def)
  from cast_types_declared [OF assms(5) assms(1) assms(2) assms(4)] assms(3) ne
  have c: "map_of (columns df') (Name c) = Some (ObjCol ?cells)"
    by (simp add: cast_column_def dt_strftime_def)
  have 1: "case to_datetime_cell L (series_values s) (series_values s ! i) of
          None \<Rightarrow> ?cells ! i = PFloat NaN
        | Some t \<Rightarrow> ?cells ! i = PStr (strftime_ymd t) \<and> is_ymd (strftime_ymd t)"
    if "i < length ?cells" for i
    using that by (simp add: to_datetime_def is_ymd_strftime split: option.splits)
  have 2: "v = PFloat NaN \<or> (\<exists>t. v = PStr t \<and> is_ymd t)" if "v \<in> set ?cells" for v
    using that by (auto simp: is_ymd_strftime split: option.splits)
  from c 1 2 strftime_ignores_time show ?thesis
    by (intro exI [of _ ?cells]) simp
qed

lemma strftime_example:
  "strftime_ymd (Timestamp 2024 11 5 36000000000000) = ascii ''2024-11-05''"
  by (simp add: strftime_ymd_def ts_year.rep_eq ts_month.rep_eq ts_day.rep_eq Timestamp.rep_eq
      pad2_def nat_digits_four nat_digits_two nat_digits_one ascii_def)

lemma cast_types_dates_frame:
  "cast_types example_lib dates_frame (common_fields @ [field ''userId'' ''int'']) =
     Inr \<lparr>nrows = 2,
          columns =
            [(ascii ''postId'', ObjCol [PStr (ascii ''p1''), PStr (ascii ''p2'')]),
             (ascii ''datePosted'', ObjCol [PStr (ascii ''2024-11-05''), PFloat NaN])]\<rparr>"
  by (simp add: dates_frame_def common_fields_def field_def cast_column_def update_column_def
      astype_str_def dt_strftime_def to_datetime_def strftime_example [unfolded ascii_def]
      ascii_def)


theorem cast_types_date_or_null_witness:
  "cast_types example_lib dates_frame (common_fields @ [field ''userId'' ''int'']) =
     Inr \<lparr>nrows = 2,
          columns =
            [(ascii ''postId'', ObjCol [PStr (ascii ''p1''), PStr (ascii ''p2'')]),
             (ascii ''datePosted'', ObjCol [PStr (ascii ''2024-11-05''), PFloat NaN])]\<rparr> \<and>
   is_ymd (ascii ''2024-11-05'')"
proof -
  have h1: "distinct (map Name (common_fields @ [field ''userId'' ''int'']))"
    by (rule distinct_user_schema)
  have h2: "field ''datePosted'' ''date'' \<in> set (common_fields @ [field ''userId'' ''int''])"
    by (simp add: common_fields_def)
  have h3: "Type (field ''datePosted'' ''date'') = ascii ''date''"
    by (simp add: field_def)
  have h4: "map_of (columns dates_frame) (Name (field ''datePosted'' ''date'')) =
      Some (DateCol [Some (Timestamp 2024 11 5 36000000000000), None])"
    by (simp add: dates_frame_def field_def ascii_def)
  note h5 = cast_types_dates_frame
  from cast_types_date_or_null [OF h1 h2 h3 h4 h5]
  obtain cells where
    "map_of [(ascii ''postId'', ObjCol [PStr (ascii ''p1''), PStr (ascii ''p2'')]),
             (ascii ''datePosted'', ObjCol [PStr (ascii ''2024-11-05''), PFloat NaN])]
        (Name (field ''datePosted'' ''date'')) = Some (ObjCol cells)"
    and "\<forall>v \<in> set cells. v = PFloat NaN \<or> (\<exists>t. v = PStr t \<and> is_ymd t)"
    by auto
  then have "is_ymd (ascii ''2024-11-05'')"
    by (auto simp: field_def ascii_def)
  with h5 show ?thesis by blast
qed

text \<open>
  Claim C6. Let the schema declare each name once and declare, with a type that is none
  of \<^verbatim>\<open>int\<close>, \<^verbatim>\<open>float\<close> and \<^verbatim>\<open>date\<close>, a field that the frame has. When \<open>cast_types\<close>
  returns, each cell of that column is the text of the value, never a null: \<^verbatim>\<open>None\<close>
  becomes the text \<^verbatim>\<open>None\<close>, NaN the text \<^verbatim>\<open>nan\<close>, \<^verbatim>\<open>NaT\<close> the text \<^verbatim>\<open>NaT\<close> and \<^verbatim>\<open>pd.NA\<close>
  the text \<^verbatim>\<open><NA>\<close>.
\<close>

theorem cast_types_text_fallback:
  assumes "distinct (map Name schema)"
    and "c \<in> set schema"
    and "Type c \<noteq> ascii ''int''" and "Type c \<noteq> ascii ''float''" and "Type c \<noteq> ascii ''date''"
    and "map_of (columns df) (Name c) = Some s"
    and "cast_types L df schema = Inr df'"
  shows "\<exists>cells. map_of (columns df') (Name c) = Some (ObjCol cells) \<and>
     length cells = length (series_values s) \<and>
     (\<forall>i < length cells.
        cells ! i = PStr (py_str L (series_values s ! i)) \<and>
        (series_values s ! i = PNone \<longrightarrow> cells ! i = PStr (ascii ''None'')) \<and>
        (series_values s ! i = PFloat NaN \<longrightarrow> cells ! i = PStr (ascii ''nan'')) \<and>
        (series_values s ! i = PNaT \<longrightarrow> cells ! i = PStr (ascii ''NaT'')) \<and>
        (series_values s ! i = PNA \<longrightarrow> cells ! i = PStr (ascii ''<NA>'')))"
proof -
  let ?cells = "map PStr (astype_str L s)"
  from cast_types_declared [OF assms(7) assms(1) assms(2) assms(6)] assms(3-5)
  have "map_of (columns df') (Name c) = Some (ObjCol ?cells)"
    by (simp add: cast_column_def)
  moreover have "length ?cells = length (series_values s)"
    by (simp add: astype_str_def)
  moreover have "?cells ! i = PStr (py_str L (series_values s ! i))"
    if "i < length ?cells" for i
    using that by (simp add: astype_str_def)
  ultimately show ?thesis
    by (intro exI [of _ ?cells]) auto
qed

lemma cast_types_example_frame:
  "cast_types example_lib example_frame (common_fields @ [field ''userId'' ''int'']) =
     Inr \<lparr>nrows = 2,
          columns =
            [(ascii ''postId'', ObjCol [PStr [97, 13, 10, 9, 233, 98, 127], PStr (ascii ''None'')]),
             (ascii ''promoted'', BoolCol [True, False]),
             (ascii ''views'', NIntCol [Some 1, Some 2])]\<rparr>"
  by (simp add: example_frame_def common_fields_def field_def cast_column_def update_column_def
      astype_str_def ascii_def)

theorem cast_types_text_fallback_witness:
  "cast_types example_lib example_frame (common_fields @ [field ''userId'' ''int'']) =
     Inr \<lparr>nrows = 2,
          columns =
            [(ascii ''postId'', ObjCol [PStr [97, 13, 10, 9, 233, 98, 127], PStr (ascii ''None'')]),
             (ascii ''promoted'', BoolCol [True, False]),
             (ascii ''views'', NIntCol [Some 1, Some 2])]\<rparr> \<and>
   (\<exists>cells. map_of [(ascii ''postId'', ObjCol [PStr [97, 13, 10, 9, 233, 98, 127], PStr (ascii ''None'')]),
                     (ascii ''promoted'', BoolCol [True, False]),
                     (ascii ''views'', NIntCol [Some 1, Some 2])] (ascii ''postId'') =
               Some (ObjCol cells) \<and>
             cells ! 1 = PStr (ascii ''None''))"
proof -
  have h1: "distinct (map Name (common_fields @ [field ''userId'' ''int'']))"
    by (rule distinct_user_schema)
  have h2: "field ''postId'' ''string'' \<in> set (common_fields @ [field ''userId'' ''int''])"
    by (simp add: common_fields_def)
  have h3: "Type (field ''postId'' ''string'') \<noteq> ascii ''int''"
    "Type (field ''postId'' ''string'') \<noteq> ascii ''float''"
    "Type (field ''postId'' ''string'') \<noteq> ascii ''date''"
    by (simp_all add: field_def ascii_def)
  have h4: "map_of (columns example_frame) (Name (field ''postId'' ''string'')) =
      Some (ObjCol [PStr [97, 13, 10, 9, 233, 98, 127], PNone])"
    by (simp add: example_frame_def field_def ascii_def)
  note h5 = cast_types_example_frame
  from cast_types_text_fallback [OF h1 h2 h3 h4 h5]
  obtain cells where
    "map_of [(ascii ''postId'', ObjCol [PStr [97, 13, 10, 9, 233, 98, 127], PStr (ascii ''None'')]),
             (ascii ''promoted'', BoolCol [True, False]),
             (ascii ''views'', NIntCol [Some 1, Some 2])] (Name (field ''postId'' ''string'')) =
       Some (ObjCol cells)"
    and "length cells = length (series_values (ObjCol [PStr [97, 13, 10, 9, 233, 98, 127], PNone]))"
    and "\<forall>i < length cells.
        series_values (ObjCol [PStr [97, 13, 10, 9, 233, 98, 127], PNone]) ! i = PNone \<longrightarrow>
        cells ! i = PStr (ascii ''None'')"
    by auto
  then have "\<exists>cells. map_of [(ascii ''postId'', ObjCol [PStr [97, 13, 10, 9, 233, 98, 127], PStr (ascii ''None'')]),
                     (ascii ''promoted'', BoolCol [True, False]),
                     (ascii ''views'', NIntCol [Some 1, Some 2])] (ascii ''postId'') =
               Some (ObjCol cells) \<and>
             cells ! 1 = PStr (ascii ''None'')"
    by (auto simp: field_def)
  with h5 show ?thesis by blast
qed

section \<open>Properties of the pipeline\<close>

lemma column_names_foldl_update:
  "column_names (foldl (\<lambda>d col. update_column col f d) df cols) = column_names df"
  by (induction cols arbitrary: df) simp_all

lemma column_names_clean [simp]: "column_names (clean_dataframe L df) = column_names df"
  by (simp add: clean_dataframe_def column_names_foldl_update)

lemma column_names_drop_id [simp]:
  "column_names (drop_id df) = filter (\<lambda>k. k \<noteq> ascii ''_id'') (column_names df)"
proof -
  have "map fst (filter (\<lambda>(n, s). n \<noteq> k) kvs) = filter (\<lambda>n. n \<noteq> k) (map fst kvs)"
    for k :: pystr and kvs :: "(pystr \<times> series) list"
    by (induction kvs) auto
  moreover have "k \<notin> set ks \<Longrightarrow> filter (\<lambda>n. n \<noteq> k) ks = ks" for k :: pystr and ks
    by (induction ks) auto
  ultimately show ?thesis
    by (simp add: drop_id_def column_names_def)
qed

lemma column_names_DataFrame [simp]: "column_names (DataFrame data) = all_keys data"
  by (simp add: DataFrame_def column_names_def comp_def)

lemma keys_row_to_dict [simp]: "map fst (row_to_dict df i) = column_names df"
  by (simp add: row_to_dict_def column_names_def case_prod_unfold)

lemma keys_iterrows: "row \<in> set (iterrows df) \<Longrightarrow> map fst row = column_names df"
  by (auto simp: iterrows_def)

lemma pipeline_column_names:
  assumes "cast_types L (clean_dataframe L (drop_id df)) schema = Inr df'"
  shows "column_names df' = filter (\<lambda>k. k \<noteq> ascii ''_id'') (column_names df)"
  using cast_types_shape [OF assms] by simp

lemma distinct_all_keys: "distinct (all_keys data)"
  by (simp add: all_keys_def)

lemma map_of_DataFrame:
  "k \<in> set (all_keys data) \<Longrightarrow>
   map_of (columns (DataFrame data)) k = Some (maybe_convert_objects (dicts_to_array data k))"
proof -
  have "k \<in> set ks \<Longrightarrow> map_of (map (\<lambda>k. (k, f k)) ks) k = Some (f k)"
    for ks :: "pystr list" and f :: "pystr \<Rightarrow> series"
    by (induction ks) auto
  then show "k \<in> set (all_keys data) \<Longrightarrow> ?thesis"
    by (simp add: DataFrame_def)
qed

lemma maybe_convert_objects_missing:
  assumes "i < length xs" "xs ! i = PFloat NaN"
  shows "series_values (maybe_convert_objects xs) ! i = PFloat NaN \<or>
         series_values (maybe_convert_objects xs) ! i = PNaT"
proof -
  from assms(1) have "xs ! i \<in> set xs" by (rule nth_mem)
  with assms(2) have "PFloat NaN \<in> set xs" by simp
  moreover have "\<not> is_int64_obj (PFloat NaN)" "\<not> is_bool_obj (PFloat NaN)" by simp_all
  ultimately have "\<not> list_all is_int64_obj xs" "\<not> list_all is_bool_obj xs"
    unfolding list_all_iff by blast+
  with assms show ?thesis
    by (simp add: maybe_convert_objects_def)
qed

text \<open>
  Claim C3, as the code has it. A record that lacks a field another record of the set has
  gets a missing marker (NaN, or \<^verbatim>\<open>NaT\<close> in a column of timestamps) in that column when the
  frame is built. When the caster returns, every row that is serialized has the same
  keys, all the columns of the frame but \<^verbatim>\<open>_id\<close>, whatever fields its record had. A column
  the schema does not name passes the caster unchanged.
\<close>

theorem missing_field_is_backfilled:
  assumes "cast_types L (clean_dataframe L (drop_id (DataFrame data))) schema = Inr df'"
  shows "(\<forall>i < length data. \<forall>k \<in> set (all_keys data). map_of (data ! i) k = None \<longrightarrow>
            (\<exists>s. map_of (columns (DataFrame data)) k = Some s \<and>
                 (series_values s ! i = PFloat NaN \<or> series_values s ! i = PNaT))) \<and>
         (\<forall>row \<in> set (iterrows df'). map fst row = filter (\<lambda>k. k \<noteq> ascii ''_id'') (all_keys data)) \<and>
         (\<forall>n. n \<notin> Name ` set schema \<longrightarrow>
            map_of (columns df') n = map_of (columns (clean_dataframe L (drop_id (DataFrame data)))) n)"
proof (intro conjI allI impI ballI)
  fix i k
  assume i: "i < length data" and k: "k \<in> set (all_keys data)" and m: "map_of (data ! i) k = None"
  let ?xs = "dicts_to_array data k"
  from i m have "i < length ?xs" "?xs ! i = PFloat NaN"
    by (simp_all add: dicts_to_array_def)
  from maybe_convert_objects_missing [OF this] map_of_DataFrame [OF k]
  show "\<exists>s. map_of (columns (DataFrame data)) k = Some s \<and>
            (series_values s ! i = PFloat NaN \<or> series_values s ! i = PNaT)"
    by blast
next
  fix row
  assume "row \<in> set (iterrows df')"
  then show "map fst row = filter (\<lambda>k. k \<noteq> ascii ''_id'') (all_keys data)"
    using pipeline_column_names [OF assms] by (simp add: keys_iterrows)
next
  fix n
  assume "n \<notin> Name ` set schema"
  with cast_types_untouched [OF assms]
  show "map_of (columns df') n = map_of (columns (clean_dataframe L (drop_id (DataFrame data)))) n"
    by simp
qed

lemmas pipeline_defs = export_lines_def DataFrame_def all_keys_def dicts_to_array_def
  maybe_convert_objects_def drop_id_def column_names_def clean_dataframe_def
  select_dtypes_object_bool_def update_column_def clean_series_def astype_str_def
  replace_crlftab_def remove_nonprintable_def common_fields_def field_def ascii_def
  cast_column_def maybe_convert_numeric_def xstrtod_def special_float_def lower_def
  is_space_def is_digit_def digits_value_def int64_range_def dt_strftime_def to_datetime_def
  export_to_ndjson_def iterrows_def row_to_dict_def float_rows_def masked_float_rows_def
  json_dumps_def
  json_string_def json_escape_def int_str_def bool_str_def

text \<open>
  Claim C3 as stated fails: the second record has no \<^verbatim>\<open>engagement\<close>, and its line has the
  key with NaN.
\<close>

theorem missing_field_serialized_counterexample:
  "export_lines example_lib (common_fields @ [field ''userId'' ''int'']) missing_engagement =
     Inr [[123] @ json_string (ascii ''postId'') @ ascii '': '' @ json_string (ascii ''p1'')
            @ ascii '', '' @ json_string (ascii ''engagement'') @ ascii '': 0.5}'' @ [10],
          [123] @ json_string (ascii ''postId'') @ ascii '': '' @ json_string (ascii ''p2'')
            @ ascii '', '' @ json_string (ascii ''engagement'') @ ascii '': NaN}'' @ [10]]"
  by (simp add: pipeline_defs missing_engagement_def upt_rec example_lib_def positional_def
      nat_digits_one)

lemma cast_types_missing_engagement:
  "cast_types example_lib (clean_dataframe example_lib (drop_id (DataFrame missing_engagement)))
     (common_fields @ [field ''userId'' ''int'']) =
   Inr \<lparr>nrows = 2,
        columns =
          [(ascii ''postId'', ObjCol [PStr (ascii ''p1''), PStr (ascii ''p2'')]),
           (ascii ''engagement'', FloatCol [Fin 5 (- 1), NaN])]\<rparr>"
  by (simp add: pipeline_defs missing_engagement_def)

theorem missing_field_is_backfilled_witness:
  "cast_types example_lib (clean_dataframe example_lib (drop_id (DataFrame missing_engagement)))
     (common_fields @ [field ''userId'' ''int'']) =
   Inr \<lparr>nrows = 2,
        columns =
          [(ascii ''postId'', ObjCol [PStr (ascii ''p1''), PStr (ascii ''p2'')]),
           (ascii ''engagement'', FloatCol [Fin 5 (- 1), NaN])]\<rparr> \<and>
   map_of (missing_engagement ! 1) (ascii ''engagement'') = None \<and>
   map (map fst)
     (iterrows \<lparr>nrows = 2,
        columns =
          [(ascii ''postId'', ObjCol [PStr (ascii ''p1''), PStr (ascii ''p2'')]),
           (ascii ''engagement'', FloatCol [Fin 5 (- 1), NaN])]\<rparr>) =
     [[ascii ''postId'', ascii ''engagement''], [ascii ''postId'', ascii ''engagement'']]"
proof -
  note c = cast_types_missing_engagement
  have m: "map_of (missing_engagement ! 1) (ascii ''engagement'') = None"
    by (simp add: missing_engagement_def ascii_def)
  have k: "filter (\<lambda>k. k \<noteq> ascii ''_id'') (all_keys missing_engagement) =
      [ascii ''postId'', ascii ''engagement'']"
    by (simp add: missing_engagement_def all_keys_def ascii_def)
  from missing_field_is_backfilled [OF c]
  have "\<forall>row \<in> set (iterrows \<lparr>nrows = 2,
        columns =
          [(ascii ''postId'', ObjCol [PStr (ascii ''p1''), PStr (ascii ''p2'')]),
           (ascii ''engagement'', FloatCol [Fin 5 (- 1), NaN])]\<rparr>).
      map fst row = filter (\<lambda>k. k \<noteq> ascii ''_id'') (all_keys missing_engagement)"
    by blast
  then have "map (map fst)
     (iterrows \<lparr>nrows = 2,
        columns =
          [(ascii ''postId'', ObjCol [PStr (ascii ''p1''), PStr (ascii ''p2'')]),
           (ascii ''engagement'', FloatCol [Fin 5 (- 1), NaN])]\<rparr>) =
     [[ascii ''postId'', ascii ''engagement''], [ascii ''postId'', ascii ''engagement'']]"
    unfolding k by (simp add: iterrows_def upt_rec)
  with c m show ?thesis by blast
qed

text \<open>
  Claim C5 fails on the code: a record whose \<^verbatim>\<open>views\<close> is 1.5 makes
  \<^verbatim>\<open>astype("Int64")\<close> raise \<^verbatim>\<open>TypeError\<close>, and \<open>cast_types\<close> with it.
\<close>

theorem cast_types_raises_on_fraction:
  "cast_types example_lib (clean_dataframe example_lib (drop_id (DataFrame fractional_views)))
     (common_fields @ [field ''userId'' ''int'']) = Inl TypeError"
  by (simp add: pipeline_defs fractional_views_def)

section \<open>Properties of the orchestrator\<close>







lemma process_collection_append:
  "process_collection L E n f w =
     (w\<lparr>stdout := stdout w @ stdout (fst (process_collection L E n f start)),
        uploaded := uploaded w @ uploaded (fst (process_collection L E n f start))\<rparr>,
      snd (process_collection L E n f start))"
  by (auto simp: process_collection_def print_def start_def Let_def
      split: sum.splits option.splits)



lemma main_loop_uploaded:
  "main_loop L E cs w0 = Inr w \<Longrightarrow> u \<in> set (uploaded w) \<Longrightarrow>
   u \<in> set (uploaded w0) \<or> (\<exists>c \<in> set cs. u \<in> set (uploads L E c))"
proof (induction cs arbitrary: w0)
  case Nil
  then show ?case by simp
next
  case (Cons c cs)
  obtain n f where c: "c = (n, f)" by (cases c)
  obtain w1 r where p: "process_collection L E n f start = (w1, r)"
    by (cases "process_collection L E n f start")
  let ?w = "w0\<lparr>stdout := stdout w0 @ stdout w1, uploaded := uploaded w0 @ uploaded w1\<rparr>"
  have step: "process_collection L E n f w0 = (?w, r)"
    using process_collection_append [of L E n f w0] p by simp
  have "\<exists>w'. main_loop L E cs w' = Inr w \<and> uploaded w' = uploaded ?w"
    using Cons.prems(1) c step
    by (cases r) (auto simp: print_def split: if_splits option.splits sum.splits)
  then obtain w' where "main_loop L E cs w' = Inr w" and u: "uploaded w' = uploaded ?w"
    by blast
  from Cons.IH [OF this(1) Cons.prems(2)] u c p show ?case
    by (auto simp: uploads_def)
qed

lemma uploads_exported:
  "(b, k, content) \<in> set (uploads L E (n, f)) \<Longrightarrow>
   \<exists>data schema df'. find_all E n = Inr data \<and> map_of SCHEMAS n = Some schema \<and>
      cast_types L (clean_dataframe L (drop_id (DataFrame data))) schema = Inr df' \<and>
      export_to_ndjson L df' = Inr content"
  by (auto simp: uploads_def process_collection_def print_def start_def Let_def
      split: sum.splits option.splits if_splits)













text \<open>
  Claim C7. Every object the run uploads is the serialization of a frame that has no
  column \<^verbatim>\<open>_id\<close>: no row that is serialized has the key \<^verbatim>\<open>_id\<close>.
\<close>

theorem id_never_exported:
  assumes "main L E = Inr w" and "(b, k, content) \<in> set (uploaded w)"
  shows "\<exists>df. ascii ''_id'' \<notin> set (column_names df) \<and>
     export_to_ndjson L df = Inr content \<and>
     write_rows L (iterrows df) = Inr content \<and>
     (\<forall>row \<in> set (iterrows df). ascii ''_id'' \<notin> fst ` set row)"
proof -
  from main_loop_uploaded [of L E COLLECTIONS start w "(b, k, content)"] assms
  obtain n f where "(b, k, content) \<in> set (uploads L E (n, f))"
    by (auto simp: main_def start_def)
  from uploads_exported [OF this] obtain data schema df where
    c: "cast_types L (clean_dataframe L (drop_id (DataFrame data))) schema = Inr df"
    and e: "export_to_ndjson L df = Inr content"
    by blast
  from pipeline_column_names [OF c] have n: "ascii ''_id'' \<notin> set (column_names df)"
    by simp
  have "ascii ''_id'' \<notin> fst ` set row" if "row \<in> set (iterrows df)" for row
    using keys_iterrows [OF that] n by (metis set_map)
  with n e show ?thesis
    by (auto simp: export_to_ndjson_def)
qed

lemma main_example:
  "main example_lib example_env =
     Inr \<lparr>stdout =
            [Processing (ascii ''UserTiktokMetrics''),
             Error (ascii ''UserTiktokMetrics'') (LibraryError (ascii ''connection refused'')),
             Processing (ascii ''AdminTiktokMetrics''),
             Uploading (ascii ''AdminTiktokMetrics.json'') (ascii ''my-bucket'')
               (ascii ''admin_tiktok_metrics/AdminTiktokMetrics.json''),
             Exported (ascii ''AdminTiktokMetrics'')],
          uploaded =
            [(ascii ''my-bucket'', ascii ''admin_tiktok_metrics/AdminTiktokMetrics.json'',
              [[123] @ json_string (ascii ''postId'') @ ascii '': '' @ json_string (ascii ''p1'')
                 @ ascii '', '' @ json_string (ascii ''views'') @ ascii '': 10}'' @ [10]])]\<rparr>"
  by (simp add: main_def start_def COLLECTIONS_def SCHEMAS_def process_collection_def
      example_env_def print_def Let_def pipeline_defs upt_rec nat_digits.simps [of 10]
      nat_digits_one)


theorem id_never_exported_witness:
  "main example_lib example_env =
     Inr \<lparr>stdout =
            [Processing (ascii ''UserTiktokMetrics''),
             Error (ascii ''UserTiktokMetrics'') (LibraryError (ascii ''connection refused'')),
             Processing (ascii ''AdminTiktokMetrics''),
             Uploading (ascii ''AdminTiktokMetrics.json'') (ascii ''my-bucket'')
               (ascii ''admin_tiktok_metrics/AdminTiktokMetrics.json''),
             Exported (ascii ''AdminTiktokMetrics'')],
          uploaded =
            [(ascii ''my-bucket'', ascii ''admin_tiktok_metrics/AdminTiktokMetrics.json'',
              [[123] @ json_string (ascii ''postId'') @ ascii '': '' @ json_string (ascii ''p1'')
                 @ ascii '', '' @ json_string (ascii ''views'') @ ascii '': 10}'' @ [10]])]\<rparr> \<and>
   (\<exists>df. ascii ''_id'' \<notin> set (column_names df) \<and>
      export_to_ndjson example_lib df =
        Inr [[123] @ json_string (ascii ''postId'') @ ascii '': '' @ json_string (ascii ''p1'')
               @ ascii '', '' @ json_string (ascii ''views'') @ ascii '': 10}'' @ [10]])"
proof -
  note m = main_example
  from id_never_exported [OF m, of "ascii ''my-bucket''"
      "ascii ''admin_tiktok_metrics/AdminTiktokMetrics.json''"
      "[[123] @ json_string (ascii ''postId'') @ ascii '': '' @ json_string (ascii ''p1'')
          @ ascii '', '' @ json_string (ascii ''views'') @ ascii '': 10}'' @ [10]]"]
  have "\<exists>df. ascii ''_id'' \<notin> set (column_names df) \<and>
      export_to_ndjson example_lib df =
        Inr [[123] @ json_string (ascii ''postId'') @ ascii '': '' @ json_string (ascii ''p1'')
               @ ascii '', '' @ json_string (ascii ''views'') @ ascii '': 10}'' @ [10]]"
    by auto
  with m show ?thesis by blast
qed

text \<open>
  A record without an integer field is not what breaks the serialization: the cell is
  \<^verbatim>\<open>pd.NA\<close> in the cast frame, \<^verbatim>\<open>row.to_dict()\<close> hands over \<^verbatim>\<open>None\<close> and the line holds \<^verbatim>\<open>null\<close>.
\<close>

lemma missing_views_serialized:
  "export_lines example_lib (common_fields @ [field ''userId'' ''int'']) missing_views =
     Inr [[123] @ json_string (ascii ''postId'') @ ascii '': '' @ json_string (ascii ''p1'')
            @ ascii '', '' @ json_string (ascii ''views'') @ ascii '': 10}'' @ [10],
          [123] @ json_string (ascii ''postId'') @ ascii '': '' @ json_string (ascii ''p2'')
            @ ascii '', '' @ json_string (ascii ''views'') @ ascii '': null}'' @ [10]]"
  by (simp add: pipeline_defs missing_views_def upt_rec nat_digits.simps [of 10] nat_digits_one)

text \<open>
  Claim C9 fails on the code: the document has a date in a field that the schema does not
  declare, the sanitizer and the caster leave the column as it is, and \<^verbatim>\<open>json.dumps\<close>
  raises \<^verbatim>\<open>TypeError\<close> on the timestamp: no file is produced to parse back.
\<close>

theorem export_raises_on_undeclared_date:
  "export_lines example_lib (common_fields @ [field ''userId'' ''int'']) undeclared_date =
     Inl TypeError"
  by (simp add: pipeline_defs undeclared_date_def upt_rec)

section \<open>Sanitizing and casting together\<close>
















end
